theory Spec2Isabelle
  imports Complex_Main "HOL-Library.Word"
begin

section \<open>JavaScript values\<close>

text \<open>
  A JavaScript string is a sequence of UTF-16 code units; a code unit is modelled as a
  natural number. \<open>str\<close> turns an ASCII literal into such a sequence, and text outside
  ASCII (the user-facing messages) is written as the list of its code units.
\<close>

type_synonym jsstring = "nat list"

definition str :: "string \<Rightarrow> jsstring" where
  "str s = map of_char s"

text \<open>
  A JavaScript number is a double. The finite ones are modelled by the rational they
  denote: the program only compares them, divides them by 1024 and rounds them.
\<close>

datatype jsnum = NaN | PosInfinity | NegInfinity | Fin rat

type_synonym byte = "8 word"

record File =
  file_name :: jsstring
  file_type :: jsstring
  bytes :: "byte list"

definition size_of :: "File \<Rightarrow> nat" where
  "size_of f = length (bytes f)"

datatype jsval =
    JUndefined
  | JNull
  | JBool bool
  | JNum jsnum
  | JStr jsstring
  | JArr "jsval list"
  | JObj "(jsstring \<times> jsval) list"
  | JFile File

fun truthy :: "jsval \<Rightarrow> bool" where
  "truthy JUndefined = False"
| "truthy JNull = False"
| "truthy (JBool b) = b"
| "truthy (JNum n) = (case n of NaN \<Rightarrow> False | Fin q \<Rightarrow> q \<noteq> 0 | _ \<Rightarrow> True)"
| "truthy (JStr s) = (s \<noteq> [])"
| "truthy _ = True"

text \<open>\<open>s\<close> is truthy when it is a string that is not empty.\<close>

definition truthy_str :: "jsstring option \<Rightarrow> bool" where
  "truthy_str s = (case s of None \<Rightarrow> False | Some t \<Rightarrow> t \<noteq> [])"

text \<open>
  \<open>v.k\<close> for a property name \<open>k\<close> that is neither an array index nor \<open>length\<close>. The names
  the program reads (\<open>choices\<close>, \<open>message\<close>, \<open>content\<close>, \<open>text\<close>, \<open>confidence\<close>, \<open>error\<close>,
  \<open>model\<close> and the five request fields) are own properties of no string, array, number or
  boolean, and the program reads them from the output of a JSON parser only.
\<close>

fun get_prop :: "jsval \<Rightarrow> jsstring \<Rightarrow> jsval" where
  "get_prop (JObj kvs) k = (case map_of kvs k of Some v \<Rightarrow> v | None \<Rightarrow> JUndefined)"
| "get_prop _ k = JUndefined"

text \<open>\<open>v?.k\<close>\<close>

fun opt_prop :: "jsval \<Rightarrow> jsstring \<Rightarrow> jsval" where
  "opt_prop JUndefined k = JUndefined"
| "opt_prop JNull k = JUndefined"
| "opt_prop v k = get_prop v k"

text \<open>\<open>v?.[0]\<close>: the first element of an array, the first code unit of a string, the
  property \<open>"0"\<close> of an object.\<close>

fun opt_index0 :: "jsval \<Rightarrow> jsval" where
  "opt_index0 (JArr xs) = (case xs of [] \<Rightarrow> JUndefined | x # _ \<Rightarrow> x)"
| "opt_index0 (JStr s) = (case s of [] \<Rightarrow> JUndefined | u # _ \<Rightarrow> JStr [u])"
| "opt_index0 (JObj kvs) = (case map_of kvs (str ''0'') of Some v \<Rightarrow> v | None \<Rightarrow> JUndefined)"
| "opt_index0 _ = JUndefined"

section \<open>String operations of the runtime\<close>

text \<open>White space and line terminators, as \<open>String.prototype.trim\<close> and the regular
  expression class \<open>\s\<close> take them.\<close>

definition is_ws :: "nat \<Rightarrow> bool" where
  "is_ws u = (u = 9 \<or> u = 10 \<or> u = 11 \<or> u = 12 \<or> u = 13 \<or> u = 32 \<or> u = 160
     \<or> u = 5760 \<or> (8192 \<le> u \<and> u \<le> 8202) \<or> u = 8232 \<or> u = 8233 \<or> u = 8239
     \<or> u = 8287 \<or> u = 12288 \<or> u = 65279)"

definition trim :: "jsstring \<Rightarrow> jsstring" where
  "trim s = rev (dropWhile is_ws (rev (dropWhile is_ws s)))"

definition startsWith :: "jsstring \<Rightarrow> jsstring \<Rightarrow> bool" where
  "startsWith s p = (take (length p) s = p)"

text \<open>\<open>s.indexOf(pat)\<close>, with \<open>None\<close> for -1.\<close>

fun indexOf :: "jsstring \<Rightarrow> jsstring \<Rightarrow> nat option" where
  "indexOf [] pat = (if pat = [] then Some 0 else None)"
| "indexOf (x # xs) pat =
     (if startsWith (x # xs) pat then Some 0 else map_option Suc (indexOf xs pat))"

definition str_includes :: "jsstring \<Rightarrow> jsstring \<Rightarrow> bool" where
  "str_includes s pat = (indexOf s pat \<noteq> None)"

text \<open>
  The replacement text of \<open>String.prototype.replace\<close> for a string pattern (no capture
  groups): \<open>$$\<close> is a dollar sign, \<open>$&\<close> the matched text, \<open>$`\<close> the text before the match
  and \<open>$'\<close> the text after it; every other code unit, a dollar sign before a digit or
  before \<open><\<close> included, stands for itself.
\<close>

fun getSubstitution :: "jsstring \<Rightarrow> jsstring \<Rightarrow> jsstring \<Rightarrow> jsstring \<Rightarrow> jsstring" where
  "getSubstitution matched preceding following [] = []"
| "getSubstitution matched preceding following [x] = [x]"
| "getSubstitution matched preceding following (x # y # r) =
     (if x = 36 \<and> y = 36 then 36 # getSubstitution matched preceding following r
      else if x = 36 \<and> y = 38 then matched @ getSubstitution matched preceding following r
      else if x = 36 \<and> y = 96 then preceding @ getSubstitution matched preceding following r
      else if x = 36 \<and> y = 39 then following @ getSubstitution matched preceding following r
      else x # getSubstitution matched preceding following (y # r))"

text \<open>\<open>s.replace(pat, repl)\<close> with both arguments strings: the first occurrence only.\<close>

definition replace :: "jsstring \<Rightarrow> jsstring \<Rightarrow> jsstring \<Rightarrow> jsstring" where
  "replace s pat repl =
     (case indexOf s pat of
        None \<Rightarrow> s
      | Some p \<Rightarrow>
          take p s
          @ getSubstitution pat (take p s) (drop (p + length pat) s) repl
          @ drop (p + length pat) s)"

text \<open>\<open>s.split(c)\<close> for a separator of one code unit.\<close>

fun split_unit :: "nat \<Rightarrow> jsstring \<Rightarrow> jsstring list" where
  "split_unit c [] = [[]]"
| "split_unit c (x # xs) =
     (if x = c then [] # split_unit c xs
      else (case split_unit c xs of [] \<Rightarrow> [[x]] | p # ps \<Rightarrow> (x # p) # ps))"

text \<open>\<open>s.split(/[,\s]+/)\<close>: the pieces between the maximal runs of commas and white space.\<close>

definition is_sep :: "nat \<Rightarrow> bool" where
  "is_sep u = (u = 44 \<or> is_ws u)"

function split_seps :: "jsstring \<Rightarrow> jsstring list" where
  "split_seps [] = [[]]"
| "split_seps (x # xs) =
     (if is_sep x then [] # split_seps (dropWhile is_sep xs)
      else (case split_seps xs of [] \<Rightarrow> [[x]] | p # ps \<Rightarrow> (x # p) # ps))"
  by pat_completeness auto
termination
  by (relation "measure length") (auto simp: less_Suc_eq_le length_dropWhile_le)

text \<open>\<open>parts.join(sep)\<close>\<close>

fun join :: "jsstring \<Rightarrow> jsstring list \<Rightarrow> jsstring" where
  "join sep [] = []"
| "join sep [x] = x"
| "join sep (x # y # r) = x @ sep @ join sep (y # r)"

section \<open>Base64 (\<open>btoa\<close> and \<open>atob\<close>)\<close>

definition b64_char :: "nat \<Rightarrow> nat" where
  "b64_char k =
     (if k < 26 then 65 + k
      else if k < 52 then 97 + (k - 26)
      else if k < 62 then 48 + (k - 52)
      else if k = 62 then 43
      else 47)"

definition b64_value :: "nat \<Rightarrow> nat option" where
  "b64_value u =
     (if 65 \<le> u \<and> u \<le> 90 then Some (u - 65)
      else if 97 \<le> u \<and> u \<le> 122 then Some (u - 97 + 26)
      else if 48 \<le> u \<and> u \<le> 57 then Some (u - 48 + 52)
      else if u = 43 then Some 62
      else if u = 47 then Some 63
      else None)"

fun b64_encode :: "nat list \<Rightarrow> jsstring" where
  "b64_encode [] = []"
| "b64_encode [a] = [b64_char (a div 4), b64_char ((a mod 4) * 16), 61, 61]"
| "b64_encode [a, b] =
     [b64_char (a div 4), b64_char ((a mod 4) * 16 + b div 16), b64_char ((b mod 16) * 4), 61]"
| "b64_encode (a # b # c # r) =
     [b64_char (a div 4), b64_char ((a mod 4) * 16 + b div 16),
      b64_char ((b mod 16) * 4 + c div 64), b64_char (c mod 64)] @ b64_encode r"

text \<open>\<open>btoa\<close> raises InvalidCharacterError (\<open>None\<close>) on a code unit above 255.\<close>

definition btoa :: "jsstring \<Rightarrow> jsstring option" where
  "btoa s = (if list_ex (\<lambda>u. 255 < u) s then None else Some (b64_encode s))"

definition is_ascii_ws :: "nat \<Rightarrow> bool" where
  "is_ascii_ws u = (u = 9 \<or> u = 10 \<or> u = 12 \<or> u = 13 \<or> u = 32)"

definition strip_padding :: "jsstring \<Rightarrow> jsstring" where
  "strip_padding d =
     (let n = length d in
      if 2 \<le> n \<and> d ! (n - 1) = 61 \<and> d ! (n - 2) = 61 then take (n - 2) d
      else if 1 \<le> n \<and> d ! (n - 1) = 61 then take (n - 1) d
      else d)"

fun b64_decode :: "nat list \<Rightarrow> nat list" where
  "b64_decode (a # b # c # d # r) =
     [a * 4 + b div 16, (b mod 16) * 16 + c div 4, (c mod 4) * 64 + d] @ b64_decode r"
| "b64_decode [a, b, c] = [a * 4 + b div 16, (b mod 16) * 16 + c div 4]"
| "b64_decode [a, b] = [a * 4 + b div 16]"
| "b64_decode _ = []"

text \<open>
  \<open>atob\<close>, the forgiving base64 decoder: ASCII white space is dropped, one or two
  padding signs are dropped from a string whose length is a multiple of four, and a
  length of 1 modulo 4 or a code unit outside the alphabet raises InvalidCharacterError
  (\<open>None\<close>).
\<close>

definition atob :: "jsstring \<Rightarrow> jsstring option" where
  "atob s =
     (let d0 = filter (\<lambda>u. \<not> is_ascii_ws u) s;
          d1 = (if length d0 mod 4 = 0 then strip_padding d0 else d0)
      in if length d1 mod 4 = 1 then None
         else (case those (map b64_value d1) of
                 None \<Rightarrow> None
               | Some ks \<Rightarrow> Some (b64_decode ks)))"

section \<open>The types of the service\<close>

datatype TaskType =
    document_markdown
  | general_ocr
  | plaintext_ocr
  | chart_parse
  | image_caption
  | text_localization

fun task_name :: "TaskType \<Rightarrow> jsstring" where
  "task_name document_markdown = str ''document_markdown''"
| "task_name general_ocr = str ''general_ocr''"
| "task_name plaintext_ocr = str ''plaintext_ocr''"
| "task_name chart_parse = str ''chart_parse''"
| "task_name image_caption = str ''image_caption''"
| "task_name text_localization = str ''text_localization''"

text \<open>\<open>TaskTypeSchema.safeParse\<close> on a string: the member of the enumeration with that name.\<close>

definition TaskTypeSchema :: "jsstring \<Rightarrow> TaskType option" where
  "TaskTypeSchema s =
     (if s = str ''document_markdown'' then Some document_markdown
      else if s = str ''general_ocr'' then Some general_ocr
      else if s = str ''plaintext_ocr'' then Some plaintext_ocr
      else if s = str ''chart_parse'' then Some chart_parse
      else if s = str ''image_caption'' then Some image_caption
      else if s = str ''text_localization'' then Some text_localization
      else None)"

text \<open>The optional flags of a task configuration are \<open>False\<close> where the source leaves them out.\<close>

record TaskConfig =
  config_id :: TaskType
  defaultPrompt :: jsstring
  requiresTargetText :: bool
  allowCustomPrompt :: bool

record ParsedInput =
  input_file :: File
  filename :: jsstring
  taskType :: TaskType
  customPrompt :: "jsstring option"
  targetText :: "jsstring option"

record Env =
  SILICONFLOW_API_KEY :: "jsstring option"
  SILICONFLOW_BASE_URL :: "jsstring option"
  SILICONFLOW_MODEL_ID :: "jsstring option"
  MAX_FILE_SIZE :: "jsstring option"
  SUPPORTED_FORMATS :: "jsstring option"

text \<open>
  The request context: the content-type header, what \<open>c.req.parseBody()\<close> yields (the form
  fields, each a string, a file or an array of them; \<open>None\<close> when it rejects), what
  \<open>c.req.json()\<close> yields
  (\<open>None\<close> when the body is not JSON and it rejects), and the bindings.
\<close>

record AppContext =
  content_type :: "jsstring option"
  parseBody :: "(jsstring \<Rightarrow> jsval) option"
  json :: "jsval option"
  env :: Env

text \<open>What can be thrown: an \<open>OcrError\<close> (status, code, message, details) or an error of
  the runtime.\<close>

datatype exn =
    OcrError nat jsstring jsstring "jsstring option"
  | SyntaxError
  | InvalidCharacterError
  | TypeError
  | RangeError

record OcrData =
  result_text :: jsstring
  confidence :: jsval
  processingTime :: jsnum
  model :: jsval
  data_taskType :: TaskType
  promptUsed :: jsstring
  data_filename :: jsstring

text \<open>The response: its status and the envelope, \<open>data\<close> on success, otherwise \<open>error\<close> with
  its code, message and details.\<close>

datatype envelope =
    Success OcrData
  | Failure jsstring jsstring "jsstring option"

record Response =
  status :: nat
  body :: envelope

datatype zod_code = invalid_type | too_small | invalid_enum_value

text \<open>An issue of the schema library: its code, the field it is about (empty for the
  body itself) and the value found there.\<close>

datatype zod_issue = ZodIssue zod_code jsstring jsval

record JsonRequest =
  req_taskType :: "TaskType option"
  req_image :: jsstring
  req_filename :: "jsstring option"
  prompt :: "jsstring option"
  req_text :: "jsstring option"

record upstream_request =
  endpoint :: jsstring
  authorization :: jsstring
  req_model :: jsstring
  image_url :: jsstring
  prompt_text :: jsstring

text \<open>The upstream response: its status (an unsigned 16-bit number), status text and
  body text.\<close>

record upstream_response =
  resp_status :: nat
  statusText :: jsstring
  resp_text :: jsstring

text \<open>\<open>response.ok\<close>\<close>

definition ok :: "upstream_response \<Rightarrow> bool" where
  "ok r = (200 \<le> resp_status r \<and> resp_status r \<le> 299)"

text \<open>
  What the program takes from its platform and this development leaves open: the
  conversion of a string to a number (\<open>Number\<close>) and of a number to a string (in a
  template literal), the lower-casing of a string (\<open>String.prototype.toLowerCase\<close>, with
  the case mapping of every script), the JSON parser (\<open>None\<close> when it raises SyntaxError), the message
  the schema library gives an issue, the upstream service behind \<open>fetch\<close> (\<open>None\<close> when
  the call rejects) and the duration the clock measures around that call, already
  rounded to two decimals. Every theorem holds for every platform.
\<close>

record platform =
  Number :: "jsstring \<Rightarrow> jsnum"
  numberToString :: "jsnum \<Rightarrow> jsstring"
  toLowerCase :: "jsstring \<Rightarrow> jsstring"
  JSON_parse :: "jsstring \<Rightarrow> jsval option"
  issue_message :: "zod_issue \<Rightarrow> jsstring"
  fetch :: "upstream_request \<Rightarrow> upstream_response option"
  elapsed :: jsnum

section \<open>Constants of the service\<close>

text \<open>The user-facing messages, as UTF-16 code units where they are Chinese text.\<close>

definition msg_internal :: jsstring where
  "msg_internal =
     [26381, 21153, 26242, 26102, 19981, 21487, 29992, 65292, 35831, 31245, 21518, 37325, 35797, 12290]"

definition msg_content_type :: jsstring where
  "msg_content_type =
     [20165, 25903, 25345] @ str '' multipart/form-data '' @ [25110] @ str '' application/json '' @ [35831, 27714, 12290]"

definition msg_invalid_file :: jsstring where
  "msg_invalid_file =
     [35831, 19978, 20256, 26377, 25928, 30340, 22270, 20687, 25110] @ str '' PDF '' @ [25991, 20214, 12290]"

definition msg_missing_image :: jsstring where
  "msg_missing_image =
     str ''JSON '' @ [35831, 27714, 24517, 39035, 25552, 20379] @ str '' image '' @ [23383, 27573, 65288] @ str ''base64 '' @ [32534, 30721, 65289, 12290]"

definition msg_missing_task_type :: jsstring where
  "msg_missing_task_type =
     [35831, 22312, 35831, 27714, 20013, 25552, 20379] @ str '' taskType '' @ [23383, 27573, 12290]"

definition msg_invalid_task_type :: jsstring where
  "msg_invalid_task_type =
     str ''taskType '' @ [19981, 22312, 20801, 35768, 30340, 26522, 20030, 33539, 22260, 20869, 12290]"

definition msg_missing_target_text :: jsstring where
  "msg_missing_target_text =
     [25991, 26412, 23450, 20301, 20219, 21153, 38656, 35201, 25552, 20379] @ str '' text '' @ [23383, 27573, 12290]"

definition msg_too_large_prefix :: jsstring where
  "msg_too_large_prefix =
     [25991, 20214, 22823, 23567, 36229, 20986, 38480, 21046, 65288, 26368, 22823] @ str '' ''"

definition msg_too_large_suffix :: jsstring where
  "msg_too_large_suffix =
     str ''MB'' @ [65289, 12290]"

definition msg_unsupported_format :: jsstring where
  "msg_unsupported_format =
     [24403, 21069, 25991, 20214, 26684, 24335, 19981, 21463, 25903, 25345, 12290]"

definition msg_missing_api_key :: jsstring where
  "msg_missing_api_key =
     [26410, 37197, 32622] @ str '' SILICONFLOW_API_KEY '' @ [29615, 22659, 21464, 37327, 12290]"

definition msg_api_failed :: jsstring where
  "msg_api_failed =
     str ''API '' @ [35843, 29992, 22833, 36133]"

definition msg_upstream_prefix :: jsstring where
  "msg_upstream_prefix =
     [30789, 22522, 27969, 21160, 25509, 21475, 38169, 35823, 65306]"

definition msg_no_content :: jsstring where
  "msg_no_content =
     str ''OCR '' @ [25509, 21475, 26410, 36820, 22238, 26377, 25928, 20869, 23481, 12290]"

definition msg_empty_result :: jsstring where
  "msg_empty_result =
     str ''OCR '' @ [32467, 26524, 20026, 31354, 65292, 35831, 37325, 35797, 12290]"

definition DEFAULT_MAX_FILE_SIZE :: rat where
  "DEFAULT_MAX_FILE_SIZE = 10 * 1024 * 1024"

definition DEFAULT_SUPPORTED_FORMATS :: "jsstring list" where
  "DEFAULT_SUPPORTED_FORMATS =
     [str ''image/jpeg'', str ''image/png'', str ''image/gif'', str ''image/bmp'',
      str ''image/webp'', str ''application/pdf'']"

fun TASK_CONFIGS :: "TaskType \<Rightarrow> TaskConfig" where
  "TASK_CONFIGS document_markdown =
     \<lparr>config_id = document_markdown,
      defaultPrompt = str ''<image>'' @ [10] @ str ''<|grounding|>Convert the document to markdown.'',
      requiresTargetText = False, allowCustomPrompt = False\<rparr>"
| "TASK_CONFIGS general_ocr =
     \<lparr>config_id = general_ocr,
      defaultPrompt = str ''<image>'' @ [10] @ str ''<|grounding|>OCR this image.'',
      requiresTargetText = False, allowCustomPrompt = False\<rparr>"
| "TASK_CONFIGS plaintext_ocr =
     \<lparr>config_id = plaintext_ocr,
      defaultPrompt = str ''<image>'' @ [10] @ str ''Free OCR.'',
      requiresTargetText = False, allowCustomPrompt = False\<rparr>"
| "TASK_CONFIGS chart_parse =
     \<lparr>config_id = chart_parse,
      defaultPrompt = str ''<image>'' @ [10] @ str ''Parse the figure.'',
      requiresTargetText = False, allowCustomPrompt = False\<rparr>"
| "TASK_CONFIGS image_caption =
     \<lparr>config_id = image_caption,
      defaultPrompt = str ''<image>'' @ [10] @ str ''Describe this image in detail.'',
      requiresTargetText = False, allowCustomPrompt = False\<rparr>"
| "TASK_CONFIGS text_localization =
     \<lparr>config_id = text_localization,
      defaultPrompt = str ''<image>'' @ [10] @ str ''Locate <|ref|>{{target}}<|/ref|> in the image.'',
      requiresTargetText = True, allowCustomPrompt = True\<rparr>"

section \<open>Input normalisation\<close>

fun first :: "jsval \<Rightarrow> jsval" where
  "first (JArr xs) = (case xs of [] \<Rightarrow> JUndefined | x # _ \<Rightarrow> x)"
| "first v = v"

fun normalizeString :: "jsval \<Rightarrow> jsstring option" where
  "normalizeString (JStr s) = (if length (trim s) > 0 then Some (trim s) else None)"
| "normalizeString _ = None"

text \<open>An optional string field as the value the program reads.\<close>

definition of_optional :: "jsstring option \<Rightarrow> jsval" where
  "of_optional s = (case s of None \<Rightarrow> JUndefined | Some t \<Rightarrow> JStr t)"

text \<open>\<open>s || d\<close> for an optional string \<open>s\<close>.\<close>

definition or_else :: "jsstring option \<Rightarrow> jsstring \<Rightarrow> jsstring" where
  "or_else s d = (case s of None \<Rightarrow> d | Some t \<Rightarrow> if t \<noteq> [] then t else d)"

definition resolveTaskType :: "TaskType option \<Rightarrow> jsstring option \<Rightarrow> exn + TaskType" where
  "resolveTaskType forced candidate =
     (case forced of
        Some t \<Rightarrow> Inr t
      | None \<Rightarrow>
          if \<not> truthy_str candidate
          then Inl (OcrError 400 (str ''MISSING_TASK_TYPE'') msg_missing_task_type None)
          else (case TaskTypeSchema (or_else candidate []) of
                  None \<Rightarrow> Inl (OcrError 400 (str ''INVALID_TASK_TYPE'') msg_invalid_task_type None)
                | Some t \<Rightarrow> Inr t))"

section \<open>The request schema\<close>

text \<open>
  \<open>JsonRequestSchema.extend({taskType: TaskTypeSchema.optional()}).safeParse(raw)\<close>, field
  by field in the order of the schema: the body is a plain object, \<open>image\<close> a string of at
  least one code unit, \<open>filename\<close>, \<open>prompt\<close> and \<open>text\<close> strings when present, \<open>taskType\<close>
  a member of the enumeration when present; unknown keys are dropped.
\<close>

definition parse_taskType :: "jsval \<Rightarrow> zod_issue + TaskType option" where
  "parse_taskType v =
     (case v of
        JUndefined \<Rightarrow> Inr None
      | JStr s \<Rightarrow>
          (case TaskTypeSchema s of
             Some t \<Rightarrow> Inr (Some t)
           | None \<Rightarrow> Inl (ZodIssue invalid_enum_value (str ''taskType'') v))
      | _ \<Rightarrow> Inl (ZodIssue invalid_type (str ''taskType'') v))"

definition parse_image :: "jsval \<Rightarrow> zod_issue + jsstring" where
  "parse_image v =
     (case v of
        JStr s \<Rightarrow> if 1 \<le> length s then Inr s else Inl (ZodIssue too_small (str ''image'') v)
      | _ \<Rightarrow> Inl (ZodIssue invalid_type (str ''image'') v))"

definition parse_optional_string :: "jsstring \<Rightarrow> jsval \<Rightarrow> zod_issue + jsstring option" where
  "parse_optional_string key v =
     (case v of
        JUndefined \<Rightarrow> Inr None
      | JStr s \<Rightarrow> Inr (Some s)
      | _ \<Rightarrow> Inl (ZodIssue invalid_type key v))"

definition issues_of :: "zod_issue + 'a \<Rightarrow> zod_issue list" where
  "issues_of r = (case r of Inl i \<Rightarrow> [i] | Inr _ \<Rightarrow> [])"

definition JsonRequestSchema_safeParse :: "jsval \<Rightarrow> zod_issue list + JsonRequest" where
  "JsonRequestSchema_safeParse raw =
     (case raw of
        JObj kvs \<Rightarrow>
          (let t = parse_taskType (get_prop raw (str ''taskType''));
               i = parse_image (get_prop raw (str ''image''));
               f = parse_optional_string (str ''filename'') (get_prop raw (str ''filename''));
               p = parse_optional_string (str ''prompt'') (get_prop raw (str ''prompt''));
               x = parse_optional_string (str ''text'') (get_prop raw (str ''text''))
           in (case (t, i, f, p, x) of
                 (Inr t', Inr i', Inr f', Inr p', Inr x') \<Rightarrow>
                   Inr \<lparr>req_taskType = t', req_image = i', req_filename = f',
                        prompt = p', req_text = x'\<rparr>
               | _ \<Rightarrow>
                   Inl (issues_of t @ issues_of i @ issues_of f @ issues_of p @ issues_of x)))
      | _ \<Rightarrow> Inl [ZodIssue invalid_type [] raw])"

definition formatZodError :: "platform \<Rightarrow> zod_issue list \<Rightarrow> jsstring" where
  "formatZodError pf issues = join (str ''; '') (map (issue_message pf) issues)"

section \<open>Prompt builder\<close>

definition buildPrompt ::
  "TaskConfig \<Rightarrow> jsstring option \<Rightarrow> jsstring option \<Rightarrow> exn + jsstring" where
  "buildPrompt config custom target =
     (if requiresTargetText config \<and> \<not> truthy_str target
      then Inl (OcrError 400 (str ''MISSING_TARGET_TEXT'') msg_missing_target_text None)
      else
        (let base =
               (if requiresTargetText config
                then replace (defaultPrompt config) (str ''{{target}}'')
                       (case target of None \<Rightarrow> [] | Some t \<Rightarrow> t)
                else defaultPrompt config)
         in if allowCustomPrompt config \<and> truthy_str custom
            then Inr (base @ [10] @ or_else custom [])
            else Inr base))"

section \<open>Encoder\<close>

definition getExtension :: "platform \<Rightarrow> jsstring \<Rightarrow> jsstring option" where
  "getExtension pf name =
     (let parts = split_unit 46 name
      in if length parts < 2 then None
         else (case rev parts of [] \<Rightarrow> None | p # _ \<Rightarrow> Some (toLowerCase pf p)))"

definition inferMimeType :: "platform \<Rightarrow> jsstring \<Rightarrow> jsstring option" where
  "inferMimeType pf name =
     (let ext = (if name \<noteq> [] then getExtension pf name else None)
      in if ext = Some (str ''jpg'') \<or> ext = Some (str ''jpeg'') then Some (str ''image/jpeg'')
         else if ext = Some (str ''png'') then Some (str ''image/png'')
         else if ext = Some (str ''gif'') then Some (str ''image/gif'')
         else if ext = Some (str ''bmp'') then Some (str ''image/bmp'')
         else if ext = Some (str ''webp'') then Some (str ''image/webp'')
         else if ext = Some (str ''pdf'') then Some (str ''application/pdf'')
         else None)"

definition chunkSize :: nat where
  "chunkSize = 0x8000"

text \<open>\<open>String.fromCharCode(...chunk)\<close>\<close>

definition fromCharCode :: "byte list \<Rightarrow> jsstring" where
  "fromCharCode chunk = map unat chunk"

text \<open>\<open>buffer.subarray(i, j)\<close> for \<open>i \<le> j\<close>\<close>

definition subarray :: "byte list \<Rightarrow> nat \<Rightarrow> nat \<Rightarrow> byte list" where
  "subarray buffer i j = take (j - i) (drop i buffer)"

text \<open>The loop of \<open>fileToBase64\<close>, from index \<open>i\<close> with \<open>binary\<close> built so far.\<close>

function fileToBase64_loop :: "byte list \<Rightarrow> nat \<Rightarrow> jsstring \<Rightarrow> jsstring" where
  "fileToBase64_loop buffer i binary =
     (if i < length buffer
      then fileToBase64_loop buffer (i + chunkSize)
             (binary @ fromCharCode (subarray buffer i (i + chunkSize)))
      else binary)"
  by pat_completeness auto
termination
  by (relation "measure (\<lambda>(buffer, i, binary). length buffer - i)") (auto simp: chunkSize_def)

declare fileToBase64_loop.simps [simp del]

definition fileToBase64 :: "File \<Rightarrow> exn + jsstring" where
  "fileToBase64 f =
     (case btoa (fileToBase64_loop (bytes f) 0 []) of
        None \<Rightarrow> Inl InvalidCharacterError
      | Some b \<Rightarrow> Inr b)"

definition base64ToUint8Array :: "jsstring \<Rightarrow> exn + byte list" where
  "base64ToUint8Array base64 =
     (let picked =
            (if str_includes base64 (str '','')
             then (case rev (split_unit 44 base64) of [] \<Rightarrow> base64 | p # _ \<Rightarrow> p)
             else base64);
          cleaned = filter (\<lambda>u. \<not> is_ws u) picked
      in case atob cleaned of
           None \<Rightarrow> Inl InvalidCharacterError
         | Some binary \<Rightarrow> Inr (map of_nat binary))"

record PreparedFile =
  prepared_base64 :: jsstring
  prepared_mimeType :: jsstring
  prepared_filename :: jsstring

definition prepareFile :: "platform \<Rightarrow> File \<Rightarrow> jsstring \<Rightarrow> exn + PreparedFile" where
  "prepareFile pf f name =
     (let mt = (if file_type f \<noteq> [] then file_type f
                else or_else (inferMimeType pf name) (str ''application/octet-stream''))
      in case fileToBase64 f of
           Inl e \<Rightarrow> Inl e
         | Inr b \<Rightarrow> Inr \<lparr>prepared_base64 = b, prepared_mimeType = mt, prepared_filename = name\<rparr>)"

section \<open>File validator\<close>

definition getMaxFileSize :: "platform \<Rightarrow> jsstring option \<Rightarrow> rat" where
  "getMaxFileSize pf envValue =
     (if \<not> truthy_str envValue then DEFAULT_MAX_FILE_SIZE
      else (case Number pf (or_else envValue []) of
              Fin parsed \<Rightarrow> if parsed > 0 then parsed else DEFAULT_MAX_FILE_SIZE
            | _ \<Rightarrow> DEFAULT_MAX_FILE_SIZE))"

text \<open>The strings of a JSON array whose items are all strings.\<close>

fun string_items :: "jsval list \<Rightarrow> jsstring list option" where
  "string_items [] = Some []"
| "string_items (JStr s # r) = map_option ((#) s) (string_items r)"
| "string_items (_ # r) = None"

definition split_formats :: "jsstring \<Rightarrow> jsstring list" where
  "split_formats v =
     (let list = filter (\<lambda>item. item \<noteq> []) (map trim (split_seps v))
      in if length list > 0 then list else DEFAULT_SUPPORTED_FORMATS)"

definition parseSupportedFormats :: "platform \<Rightarrow> jsstring option \<Rightarrow> jsstring list" where
  "parseSupportedFormats pf v =
     (if \<not> truthy_str v then DEFAULT_SUPPORTED_FORMATS
      else (case JSON_parse pf (or_else v []) of
              Some (JArr items) \<Rightarrow>
                (case string_items items of
                   Some parsed \<Rightarrow> if length parsed > 0 then parsed else DEFAULT_SUPPORTED_FORMATS
                 | None \<Rightarrow> split_formats (or_else v []))
            | _ \<Rightarrow> split_formats (or_else v [])))"

text \<open>One entry of the allow-list against the lower-cased MIME type and the extension:
  the body of the \<open>some\<close> callback of \<open>isAllowedFormat\<close>.\<close>

definition format_matches ::
  "platform \<Rightarrow> jsstring \<Rightarrow> jsstring option \<Rightarrow> jsstring \<Rightarrow> bool" where
  "format_matches pf normalizedMime ext format =
     (let normalized = toLowerCase pf (trim format)
      in if normalized = [] then False
         else if str_includes normalized (str ''/'') then normalized = normalizedMime
         else if startsWith normalized (str ''.'')
              then (if truthy_str ext then Some (drop 1 normalized) = ext else False)
         else (if truthy_str ext then Some normalized = ext else False))"

definition isAllowedFormat ::
  "platform \<Rightarrow> jsstring list \<Rightarrow> jsstring \<Rightarrow> jsstring \<Rightarrow> bool" where
  "isAllowedFormat pf formats mt name =
     (let ext = getExtension pf name;
          normalizedMime = toLowerCase pf mt
      in list_ex (format_matches pf normalizedMime ext) formats)"

text \<open>\<open>Math.round\<close> of a finite number: the nearest integer, a half rounded up.\<close>

definition Math_round :: "rat \<Rightarrow> int" where
  "Math_round x = \<lfloor>x + 1 / 2\<rfloor>"

definition too_large_message :: "platform \<Rightarrow> rat \<Rightarrow> jsstring" where
  "too_large_message pf maxFileSize =
     msg_too_large_prefix
     @ numberToString pf (Fin (of_int (Math_round (maxFileSize / 1024 / 1024))))
     @ msg_too_large_suffix"

definition validateFile :: "platform \<Rightarrow> File \<Rightarrow> jsstring \<Rightarrow> Env \<Rightarrow> exn + unit" where
  "validateFile pf f name e =
     (let maxFileSize = getMaxFileSize pf (MAX_FILE_SIZE e)
      in if of_nat (size_of f) > maxFileSize
         then Inl (OcrError 413 (str ''FILE_TOO_LARGE'') (too_large_message pf maxFileSize) None)
         else
           (let formats = parseSupportedFormats pf (SUPPORTED_FORMATS e);
                mt = (if file_type f \<noteq> [] then file_type f
                      else or_else (inferMimeType pf name) [])
            in if \<not> isAllowedFormat pf formats mt name
               then Inl (OcrError 400 (str ''UNSUPPORTED_FORMAT'') msg_unsupported_format None)
               else Inr ()))"

section \<open>Parsing the request\<close>

definition parseMultipart :: "AppContext \<Rightarrow> TaskType option \<Rightarrow> exn + ParsedInput" where
  "parseMultipart c forced =
     (case parseBody c of
        None \<Rightarrow> Inl TypeError
      | Some form \<Rightarrow>
          (case first (form (str ''image'')) of
             JFile f \<Rightarrow>
               (let custom = normalizeString (first (form (str ''prompt'')));
                    target = normalizeString (first (form (str ''text'')))
                in case resolveTaskType forced (normalizeString (first (form (str ''taskType'')))) of
                     Inl e \<Rightarrow> Inl e
                   | Inr t \<Rightarrow>
                       Inr \<lparr>input_file = f,
                            filename = (if file_name f \<noteq> [] then file_name f else str ''upload''),
                            taskType = t, customPrompt = custom, targetText = target\<rparr>)
           | _ \<Rightarrow> Inl (OcrError 400 (str ''INVALID_FILE'') msg_invalid_file None)))"

definition parseJson :: "platform \<Rightarrow> AppContext \<Rightarrow> TaskType option \<Rightarrow> exn + ParsedInput" where
  "parseJson pf c forced =
     (case json c of
        None \<Rightarrow> Inl SyntaxError
      | Some raw \<Rightarrow>
          (case JsonRequestSchema_safeParse raw of
             Inl issues \<Rightarrow> Inl (OcrError 400 (str ''INVALID_JSON'') (formatZodError pf issues) None)
           | Inr payload \<Rightarrow>
               if req_image payload = []
               then Inl (OcrError 400 (str ''MISSING_IMAGE'') msg_missing_image None)
               else
                 (let name = or_else (req_filename payload) (str ''upload'')
                  in case base64ToUint8Array (req_image payload) of
                       Inl e \<Rightarrow> Inl e
                     | Inr bs \<Rightarrow>
                         (let mt = (case inferMimeType pf name of
                                      None \<Rightarrow> str ''application/octet-stream''
                                    | Some m \<Rightarrow> m);
                              f = \<lparr>file_name = name, file_type = mt, bytes = bs\<rparr>
                          in case resolveTaskType forced
                                    (map_option task_name (req_taskType payload)) of
                               Inl e \<Rightarrow> Inl e
                             | Inr t \<Rightarrow>
                                 Inr \<lparr>input_file = f, filename = name, taskType = t,
                                      customPrompt = normalizeString (of_optional (prompt payload)),
                                      targetText = normalizeString (of_optional (req_text payload))\<rparr>))))"

definition parseInput :: "platform \<Rightarrow> AppContext \<Rightarrow> TaskType option \<Rightarrow> exn + ParsedInput" where
  "parseInput pf c forced =
     (let contentType = (case content_type c of None \<Rightarrow> [] | Some h \<Rightarrow> h)
      in if str_includes contentType (str ''multipart/form-data'') then parseMultipart c forced
         else if str_includes contentType (str ''application/json'') then parseJson pf c forced
         else Inl (OcrError 415 (str ''UNSUPPORTED_CONTENT_TYPE'') msg_content_type None))"

section \<open>Upstream client\<close>

text \<open>The text of one part of a content list: \<open>typeof part?.text === "string" ? part.text : ""\<close>\<close>

definition part_text :: "jsval \<Rightarrow> jsstring" where
  "part_text part = (case opt_prop part (str ''text'') of JStr s \<Rightarrow> s | _ \<Rightarrow> [])"

text \<open>\<open>payload?.choices?.[0]\<close>\<close>

definition first_choice :: "jsval \<Rightarrow> jsval" where
  "first_choice payload = opt_index0 (opt_prop payload (str ''choices''))"

text \<open>\<open>choice.message?.content\<close>, for a choice that is not null or undefined.\<close>

definition message_content :: "jsval \<Rightarrow> jsval" where
  "message_content choice = opt_prop (get_prop choice (str ''message'')) (str ''content'')"

text \<open>The result is the pair of the text and the confidence.\<close>

definition extractTextFromResponse :: "jsval \<Rightarrow> exn + jsstring \<times> jsval" where
  "extractTextFromResponse payload =
     (let choice = first_choice payload
      in if \<not> truthy choice
         then Inl (OcrError 502 (str ''EMPTY_RESPONSE'') msg_no_content None)
         else
           (let content = message_content choice;
                text' = (case content of
                           JStr s \<Rightarrow> trim s
                         | JArr parts \<Rightarrow> trim (join [10] (map part_text parts))
                         | _ \<Rightarrow> [])
            in if text' = []
               then Inl (OcrError 502 (str ''EMPTY_RESPONSE'') msg_empty_result None)
               else Inr (text', get_prop choice (str ''confidence''))))"

text \<open>The string a value becomes inside a template literal.\<close>

fun js_toString :: "platform \<Rightarrow> jsval \<Rightarrow> jsstring" where
  "js_toString pf JUndefined = str ''undefined''"
| "js_toString pf JNull = str ''null''"
| "js_toString pf (JBool b) = (if b then str ''true'' else str ''false'')"
| "js_toString pf (JNum n) = numberToString pf n"
| "js_toString pf (JStr s) = s"
| "js_toString pf (JArr xs) =
     join (str '','')
       (map (\<lambda>x. if x = JUndefined \<or> x = JNull then [] else js_toString pf x) xs)"
| "js_toString pf (JObj kvs) = str ''[object Object]''"
| "js_toString pf (JFile f) = str ''[object File]''"

text \<open>\<open>url.replace(/\/$/, "")\<close>\<close>

definition strip_trailing_slash :: "jsstring \<Rightarrow> jsstring" where
  "strip_trailing_slash s = (if s \<noteq> [] \<and> last s = 47 then butlast s else s)"

text \<open>The result is the triple of the text, the confidence and the model.\<close>

definition invokeSiliconFlow ::
  "platform \<Rightarrow> jsstring \<Rightarrow> jsstring \<Rightarrow> jsstring \<Rightarrow> Env \<Rightarrow> exn + jsstring \<times> jsval \<times> jsval" where
  "invokeSiliconFlow pf b64 mt prompt' e =
     (if \<not> truthy_str (SILICONFLOW_API_KEY e)
      then Inl (OcrError 500 (str ''MISSING_API_KEY'') msg_missing_api_key None)
      else
        (let apiKey = or_else (SILICONFLOW_API_KEY e) [];
             baseUrl = strip_trailing_slash
                         (or_else (SILICONFLOW_BASE_URL e) (str ''https://api.siliconflow.cn''));
             model' = or_else (SILICONFLOW_MODEL_ID e) (str ''deepseek-ai/DeepSeek-OCR'');
             request =
               \<lparr>endpoint = baseUrl @ str ''/v1/chat/completions'',
                authorization = str ''Bearer '' @ apiKey,
                req_model = model',
                image_url = str ''data:'' @ mt @ str '';base64,'' @ b64,
                prompt_text = prompt'\<rparr>
         in case fetch pf request of
              None \<Rightarrow> Inl TypeError
            | Some response \<Rightarrow>
                (let data = (case JSON_parse pf (resp_text response) of
                               None \<Rightarrow> JUndefined
                             | Some v \<Rightarrow> v)
                 in if \<not> ok response
                    then
                      (let m = opt_prop (opt_prop data (str ''error'')) (str ''message'');
                           message =
                             (if truthy m then js_toString pf m
                              else if statusText response \<noteq> [] then statusText response
                              else msg_api_failed)
                       in Inl (OcrError (resp_status response) (str ''UPSTREAM_ERROR'')
                                 (msg_upstream_prefix @ message) (Some (resp_text response))))
                    else
                      (case extractTextFromResponse data of
                         Inl err \<Rightarrow> Inl err
                       | Inr (resultText, conf) \<Rightarrow>
                           Inr (resultText, conf,
                                (let m = opt_prop data (str ''model'')
                                 in if truthy m then m else JStr model'))))))"

section \<open>Request orchestrator\<close>

text \<open>
  \<open>Response.json(data, {status})\<close>: a status outside 200..599 raises a RangeError, and a
  null-body status in that range (204, 205, 304) a TypeError, since the response has a
  body.
\<close>

definition Response_json :: "envelope \<Rightarrow> nat \<Rightarrow> exn + Response" where
  "Response_json data st =
     (if st < 200 \<or> 599 < st then Inl RangeError
      else if st = 204 \<or> st = 205 \<or> st = 304 then Inl TypeError
      else Inr \<lparr>status = st, body = data\<rparr>)"

definition handleError :: "exn \<Rightarrow> exn + Response" where
  "handleError error =
     (case error of
        OcrError st code msg det \<Rightarrow> Response_json (Failure code msg det) st
      | _ \<Rightarrow> Response_json (Failure (str ''INTERNAL_ERROR'') msg_internal None) 500)"

text \<open>The body of the \<open>try\<close> block of \<open>handleOcrRequest\<close>.\<close>

definition processRequest :: "platform \<Rightarrow> AppContext \<Rightarrow> TaskType option \<Rightarrow> exn + OcrData" where
  "processRequest pf c forced =
     (case parseInput pf c forced of
        Inl e \<Rightarrow> Inl e
      | Inr payload \<Rightarrow>
          (let config = TASK_CONFIGS (taskType payload)
           in case buildPrompt config (customPrompt payload) (targetText payload) of
                Inl e \<Rightarrow> Inl e
              | Inr finalPrompt \<Rightarrow>
                  (case validateFile pf (input_file payload) (filename payload) (env c) of
                     Inl e \<Rightarrow> Inl e
                   | Inr _ \<Rightarrow>
                       (case prepareFile pf (input_file payload) (filename payload) of
                          Inl e \<Rightarrow> Inl e
                        | Inr fileInfo \<Rightarrow>
                            (case invokeSiliconFlow pf (prepared_base64 fileInfo)
                                    (prepared_mimeType fileInfo) finalPrompt (env c) of
                               Inl e \<Rightarrow> Inl e
                             | Inr (resultText, conf, m) \<Rightarrow>
                                 Inr \<lparr>result_text = resultText, confidence = conf,
                                      processingTime = elapsed pf, model = m,
                                      data_taskType = taskType payload,
                                      promptUsed = finalPrompt,
                                      data_filename = prepared_filename fileInfo\<rparr>)))))"

text \<open>\<open>forced\<close> is \<open>options.forcedTaskType\<close>. The result is the response, or what
  \<open>handleError\<close> raises inside the \<open>catch\<close> block, with which the handler rejects.\<close>

definition handleOcrRequest ::
  "platform \<Rightarrow> AppContext \<Rightarrow> TaskType option \<Rightarrow> exn + Response" where
  "handleOcrRequest pf c forced =
     (case processRequest pf c forced of
        Inr d \<Rightarrow> Inr \<lparr>status = 200, body = Success d\<rparr>
      | Inl error \<Rightarrow> handleError error)"

section \<open>Endpoints\<close>

definition OcrTaskRoute :: "platform \<Rightarrow> AppContext \<Rightarrow> exn + Response" where
  "OcrTaskRoute pf c = handleOcrRequest pf c None"

definition createAliasRoute ::
  "TaskType \<Rightarrow> platform \<Rightarrow> AppContext \<Rightarrow> exn + Response" where
  "createAliasRoute t pf c = handleOcrRequest pf c (Some t)"

definition OcrConvertRoute :: "platform \<Rightarrow> AppContext \<Rightarrow> exn + Response" where
  "OcrConvertRoute = createAliasRoute document_markdown"

definition OcrGeneralRoute :: "platform \<Rightarrow> AppContext \<Rightarrow> exn + Response" where
  "OcrGeneralRoute = createAliasRoute general_ocr"

definition OcrSimpleRoute :: "platform \<Rightarrow> AppContext \<Rightarrow> exn + Response" where
  "OcrSimpleRoute = createAliasRoute plaintext_ocr"

definition OcrChartRoute :: "platform \<Rightarrow> AppContext \<Rightarrow> exn + Response" where
  "OcrChartRoute = createAliasRoute chart_parse"

definition OcrDescribeRoute :: "platform \<Rightarrow> AppContext \<Rightarrow> exn + Response" where
  "OcrDescribeRoute = createAliasRoute image_caption"

definition OcrLocateRoute :: "platform \<Rightarrow> AppContext \<Rightarrow> exn + Response" where
  "OcrLocateRoute = createAliasRoute text_localization"

section \<open>A platform and requests for the examples\<close>

text \<open>
  The examples run on one concrete platform: its \<open>Number\<close> reads strings of decimal
  digits and the texts \<open>Infinity\<close> and \<open>-Infinity\<close> (as JavaScript does) and gives
  \<open>NaN\<close> elsewhere, it lower-cases the capitals of ASCII and Latin-1 code unit by code
  unit (as JavaScript does on strings of such code units), its number printer writes whole
  numbers in decimal digits, its JSON parser knows the one document its upstream
  service answers with, and that service answers every call with status 200.
\<close>

definition lower_unit :: "nat \<Rightarrow> nat" where
  "lower_unit u =
     (if 65 \<le> u \<and> u \<le> 90 then u + 32
      else if (192 \<le> u \<and> u \<le> 214) \<or> (216 \<le> u \<and> u \<le> 222) then u + 32
      else u)"

definition latin1_lower :: "jsstring \<Rightarrow> jsstring" where
  "latin1_lower s = map lower_unit s"

definition is_digit :: "nat \<Rightarrow> bool" where
  "is_digit u = (48 \<le> u \<and> u \<le> 57)"

definition decimal_value :: "jsstring \<Rightarrow> nat" where
  "decimal_value s = foldl (\<lambda>n u. 10 * n + (u - 48)) 0 s"

definition decimal_Number :: "jsstring \<Rightarrow> jsnum" where
  "decimal_Number s =
     (if s = str ''Infinity'' then PosInfinity
      else if s = str ''-Infinity'' then NegInfinity
      else if s \<noteq> [] \<and> list_all is_digit s then Fin (of_nat (decimal_value s))
      else NaN)"

function show_nat :: "nat \<Rightarrow> jsstring" where
  "show_nat n = (if n < 10 then [48 + n] else show_nat (n div 10) @ [48 + n mod 10])"
  by pat_completeness auto
termination
  by (relation "measure id") auto

declare show_nat.simps [simp del]

definition whole_toString :: "jsnum \<Rightarrow> jsstring" where
  "whole_toString n =
     (case n of
        NaN \<Rightarrow> str ''NaN''
      | PosInfinity \<Rightarrow> str ''Infinity''
      | NegInfinity \<Rightarrow> str ''-Infinity''
      | Fin q \<Rightarrow> if 0 \<le> q \<and> q = of_int \<lfloor>q\<rfloor> then show_nat (nat \<lfloor>q\<rfloor>) else str ''?'')"

definition example_body :: jsstring where
  \<open>example_body = str ''{"choices":[{"message":{"content":"ok"}}]}''\<close>

definition example_payload :: jsval where
  "example_payload =
     JObj [(str ''choices'',
            JArr [JObj [(str ''message'', JObj [(str ''content'', JStr (str ''ok''))])]])]"

definition example_platform :: platform where
  "example_platform =
     \<lparr>Number = decimal_Number,
      numberToString = whole_toString,
      toLowerCase = latin1_lower,
      JSON_parse = (\<lambda>s. if s = example_body then Some example_payload else None),
      issue_message = (\<lambda>i. str ''Invalid input''),
      fetch = (\<lambda>r. Some \<lparr>resp_status = 200, statusText = str ''OK'', resp_text = example_body\<rparr>),
      elapsed = Fin 12\<rparr>"

definition example_env :: Env where
  "example_env =
     \<lparr>SILICONFLOW_API_KEY = Some (str ''sk-test''), SILICONFLOW_BASE_URL = None,
      SILICONFLOW_MODEL_ID = None, MAX_FILE_SIZE = None, SUPPORTED_FORMATS = None\<rparr>"

definition example_file :: File where
  "example_file = \<lparr>file_name = str ''scan.png'', file_type = str ''image/png'', bytes = [137, 80, 78, 71]\<rparr>"

text \<open>The fields of a parsed form, absent fields \<open>undefined\<close>.\<close>

definition form_of :: "(jsstring \<times> jsval) list \<Rightarrow> jsstring \<Rightarrow> jsval" where
  "form_of kvs k = (case map_of kvs k of None \<Rightarrow> JUndefined | Some v \<Rightarrow> v)"

definition multipart_request :: "(jsstring \<times> jsval) list \<Rightarrow> AppContext" where
  "multipart_request kvs =
     \<lparr>content_type = Some (str ''multipart/form-data; boundary=x''),
      parseBody = Some (form_of kvs), json = None, env = example_env\<rparr>"

definition json_request :: "jsval option \<Rightarrow> AppContext" where
  "json_request raw =
     \<lparr>content_type = Some (str ''application/json''),
      parseBody = None, json = raw, env = example_env\<rparr>"

text \<open>A form sent to the text-localization endpoint that declares another task.\<close>

definition locate_fields :: "(jsstring \<times> jsval) list" where
  "locate_fields =
     [(str ''image'', JFile example_file),
      (str ''taskType'', JStr (str ''general_ocr'')),
      (str ''text'', JStr (str ''total''))]"

text \<open>A form and a JSON body whose \<open>taskType\<close> is no member of the enumeration.\<close>

definition bogus_fields :: "(jsstring \<times> jsval) list" where
  "bogus_fields =
     [(str ''image'', JFile example_file), (str ''taskType'', JStr (str ''bogus''))]"

definition bogus_json :: "(jsstring \<times> jsval) list" where
  "bogus_json =
     [(str ''image'', JStr (str ''iVBORw=='')), (str ''filename'', JStr (str ''scan.png'')),
      (str ''taskType'', JStr (str ''bogus''))]"

text \<open>What the example upstream service makes of a request that reaches it.\<close>

definition example_data :: "TaskType \<Rightarrow> jsstring \<Rightarrow> OcrData" where
  "example_data t p =
     \<lparr>result_text = str ''ok'', confidence = JUndefined, processingTime = Fin 12,
      model = JStr (str ''deepseek-ai/DeepSeek-OCR''), data_taskType = t,
      promptUsed = p, data_filename = str ''scan.png''\<rparr>"

text \<open>An upstream payload whose first choice has this message content, and a content
  part with this text.\<close>

definition content_payload :: "jsval \<Rightarrow> jsval" where
  "content_payload content =
     JObj [(str ''choices'', JArr [JObj [(str ''message'', JObj [(str ''content'', content)])]])]"

definition text_part :: "jsstring \<Rightarrow> jsval" where
  "text_part s = JObj [(str ''text'', JStr s)]"

text \<open>A file of \<open>n\<close> zero bytes, and bindings with a size limit and an allow-list.\<close>

definition zero_file :: "jsstring \<Rightarrow> jsstring \<Rightarrow> nat \<Rightarrow> File" where
  "zero_file name ty n = \<lparr>file_name = name, file_type = ty, bytes = replicate n 0\<rparr>"

definition limited_env :: "jsstring option \<Rightarrow> jsstring option \<Rightarrow> Env" where
  "limited_env limit formats =
     \<lparr>SILICONFLOW_API_KEY = Some (str ''sk-test''), SILICONFLOW_BASE_URL = None,
      SILICONFLOW_MODEL_ID = None, MAX_FILE_SIZE = limit, SUPPORTED_FORMATS = formats\<rparr>"

section \<open>Notions of the specification\<close>

text \<open>Decoding the base64 text of a file and encoding the decoded bytes again.\<close>

definition reencode :: "File \<Rightarrow> exn + jsstring" where
  "reencode f =
     (case fileToBase64 f of
        Inl e \<Rightarrow> Inl e
      | Inr s \<Rightarrow>
          (case base64ToUint8Array s of
             Inl e \<Rightarrow> Inl e
           | Inr bs \<Rightarrow> fileToBase64 (f\<lparr>bytes := bs\<rparr>)))"

text \<open>The six fixed-task endpoints: path, fixed task and route.\<close>

definition alias_endpoints ::
  "(jsstring \<times> TaskType \<times> (platform \<Rightarrow> AppContext \<Rightarrow> exn + Response)) list" where
  "alias_endpoints =
     [(str ''/api/ocr/convert'', document_markdown, OcrConvertRoute),
      (str ''/api/ocr/general'', general_ocr, OcrGeneralRoute),
      (str ''/api/ocr/simple'', plaintext_ocr, OcrSimpleRoute),
      (str ''/api/ocr/chart'', chart_parse, OcrChartRoute),
      (str ''/api/ocr/describe'', image_caption, OcrDescribeRoute),
      (str ''/api/ocr/locate'', text_localization, OcrLocateRoute)]"

text \<open>A value that names a member of the TaskType enumeration.\<close>

definition enum_member :: "jsval \<Rightarrow> bool" where
  "enum_member v =
     (case v of
        JStr s \<Rightarrow>
          s \<in> set (map task_name [document_markdown, general_ocr, plaintext_ocr, chart_parse,
                                  image_caption, text_localization])
      | _ \<Rightarrow> False)"

text \<open>The input path a request takes, by its content-type header.\<close>

definition multipart_path :: "AppContext \<Rightarrow> bool" where
  "multipart_path c =
     str_includes (case content_type c of None \<Rightarrow> [] | Some h \<Rightarrow> h) (str ''multipart/form-data'')"

definition json_path :: "AppContext \<Rightarrow> bool" where
  "json_path c =
     (\<not> multipart_path c \<and>
      str_includes (case content_type c of None \<Rightarrow> [] | Some h \<Rightarrow> h) (str ''application/json''))"

text \<open>The handler answers with the error envelope of this status and code.\<close>

definition is_error :: "exn + Response \<Rightarrow> nat \<Rightarrow> jsstring \<Rightarrow> bool" where
  "is_error r st code =
     (case r of
        Inl _ \<Rightarrow> False
      | Inr r' \<Rightarrow>
          status r' = st \<and> (case body r' of Failure c _ _ \<Rightarrow> c = code | Success _ \<Rightarrow> False))"

text \<open>The first occurrence of \<open>pat\<close> in \<open>s\<close> replaced by the text \<open>repl\<close> itself.\<close>

definition replace_literal :: "jsstring \<Rightarrow> jsstring \<Rightarrow> jsstring \<Rightarrow> jsstring" where
  "replace_literal s pat repl =
     (case indexOf s pat of
        None \<Rightarrow> s
      | Some p \<Rightarrow> take p s @ repl @ drop (p + length pat) s)"

text \<open>The prompt the specification describes for a target text and an optional custom
  prompt.\<close>

definition described_prompt :: "TaskConfig \<Rightarrow> jsstring option \<Rightarrow> jsstring \<Rightarrow> jsstring" where
  "described_prompt config custom target =
     (let base = (if requiresTargetText config
                  then replace_literal (defaultPrompt config) (str ''{{target}}'') target
                  else defaultPrompt config)
      in case custom of
           None \<Rightarrow> base
         | Some cp \<Rightarrow> if allowCustomPrompt config then base @ [10] @ cp else base)"

text \<open>The string-valued \<open>text\<close> parts of a content list.\<close>

definition string_text_parts :: "jsval list \<Rightarrow> jsstring list" where
  "string_text_parts parts =
     List.map_filter
       (\<lambda>part. case opt_prop part (str ''text'') of JStr s \<Rightarrow> Some s | _ \<Rightarrow> None) parts"

text \<open>A message content that is a string or a list of parts.\<close>

definition text_content :: "jsval \<Rightarrow> bool" where
  "text_content v = (case v of JStr _ \<Rightarrow> True | JArr _ \<Rightarrow> True | _ \<Rightarrow> False)"

text \<open>The \<open>text\<close> field of a request, on the path the request takes.\<close>

definition text_field :: "AppContext \<Rightarrow> jsval" where
  "text_field c =
     (if multipart_path c
      then (case parseBody c of None \<Rightarrow> JUndefined | Some form \<Rightarrow> first (form (str ''text'')))
      else (case json c of None \<Rightarrow> JUndefined | Some raw \<Rightarrow> get_prop raw (str ''text'')))"

text \<open>A field is absent: no string, or a string of white space only.\<close>

definition absent :: "jsval \<Rightarrow> bool" where
  "absent v = (case v of JStr s \<Rightarrow> list_all is_ws s | _ \<Rightarrow> True)"







text \<open>A result is an \<open>OcrError\<close> with this status and code.\<close>

definition raises :: "exn + 'a \<Rightarrow> nat \<Rightarrow> jsstring \<Rightarrow> bool" where
  "raises r st code =
     (case r of Inl (OcrError st' code' _ _) \<Rightarrow> st' = st \<and> code' = code | _ \<Rightarrow> False)"

section \<open>Properties\<close>

subsection \<open>Base64\<close>

lemma fileToBase64_loop_eq:
  "fileToBase64_loop buffer i binary = binary @ map unat (drop i buffer)"
proof (induction buffer i binary rule: fileToBase64_loop.induct)
  case (1 buffer i binary)
  show ?case
  proof (cases "i < length buffer")
    case True
    have "take chunkSize (drop i buffer) @ drop (i + chunkSize) buffer = drop i buffer"
      by (metis add.commute append_take_drop_id drop_drop)
    then have "map unat (take chunkSize (drop i buffer)) @ map unat (drop (i + chunkSize) buffer)
        = map unat (drop i buffer)"
      by (metis map_append)
    with True 1 show ?thesis
      by (subst fileToBase64_loop.simps) (simp add: fromCharCode_def subarray_def)
  next
    case False
    then show ?thesis
      by (subst fileToBase64_loop.simps) simp
  qed
qed

lemma unat_byte_le: "\<not> list_ex (\<lambda>u. 255 < u) (map unat (bs :: byte list))"
proof -
  have "unat b \<le> 255" for b :: byte
    using unsigned_less [of b, where ?'a = nat] by simp
  then show ?thesis
    by (auto simp: list_ex_iff not_less)
qed

lemma fileToBase64_eq: "fileToBase64 f = Inr (b64_encode (map unat (bytes f)))"
  by (simp add: fileToBase64_def fileToBase64_loop_eq btoa_def unat_byte_le)

lemma b64_value_char: "k < 64 \<Longrightarrow> b64_value (b64_char k) = Some k"
  by (auto simp: b64_value_def b64_char_def)

lemma b64_char_plain:
  "b64_char k \<noteq> 61" "b64_char k \<noteq> 44" "\<not> is_ws (b64_char k)" "\<not> is_ascii_ws (b64_char k)"
  by (auto simp: b64_char_def is_ws_def is_ascii_ws_def)

lemma b64_encode_units:
  "u \<in> set (b64_encode xs) \<Longrightarrow> u = 61 \<or> (\<exists>k. u = b64_char k)"
  by (induction xs arbitrary: u rule: b64_encode.induct) auto

lemma b64_encode_clean:
  "44 \<notin> set (b64_encode xs)" "filter (\<lambda>u. \<not> is_ws u) (b64_encode xs) = b64_encode xs"
  "filter (\<lambda>u. \<not> is_ascii_ws u) (b64_encode xs) = b64_encode xs"
proof -
  show "44 \<notin> set (b64_encode xs)"
    using b64_encode_units b64_char_plain(2) by fastforce
  have "\<not> is_ws u \<and> \<not> is_ascii_ws u" if "u \<in> set (b64_encode xs)" for u
    using b64_encode_units [OF that] b64_char_plain(3,4)
    by (auto simp: is_ws_def is_ascii_ws_def)
  then show "filter (\<lambda>u. \<not> is_ws u) (b64_encode xs) = b64_encode xs"
    "filter (\<lambda>u. \<not> is_ascii_ws u) (b64_encode xs) = b64_encode xs"
    by (simp_all add: filter_id_conv)
qed

lemma length_b64_encode: "length (b64_encode xs) mod 4 = 0"
  by (induction xs rule: b64_encode.induct) auto

lemma b64_encode_padding:
  "dropWhile (\<lambda>u. u \<noteq> 61) (b64_encode xs) \<in> {[], [61], [61, 61]}"
  by (induction xs rule: b64_encode.induct) (auto simp: b64_char_plain)

lemma length_b64_body:
  "length (takeWhile (\<lambda>u. u \<noteq> 61) (b64_encode xs)) mod 4 \<noteq> 1"
  by (induction xs rule: b64_encode.induct) (auto simp: b64_char_plain)

lemma strip_padding_append:
  assumes "61 \<notin> set g" and "p \<in> {[], [61], [61, 61]}"
  shows "strip_padding (g @ p) = g"
proof -
  have last_g: "g \<noteq> [] \<Longrightarrow> g ! (length g - 1) \<noteq> 61"
    using assms(1) by (metis diff_less length_greater_0_conv less_numeral_extra(1) nth_mem)
  consider "p = []" | "p = [61]" | "p = [61, 61]"
    using assms(2) by auto
  then show ?thesis
  proof cases
    case 1
    then show ?thesis
      using last_g by (cases "g = []") (auto simp: strip_padding_def Let_def)
  next
    case 2
    then show ?thesis
      using last_g by (cases "g = []") (auto simp: strip_padding_def Let_def nth_append)
  next
    case 3
    then show ?thesis
      by (auto simp: strip_padding_def Let_def nth_append)
  qed
qed

lemma strip_padding_b64_encode:
  "strip_padding (b64_encode xs) = takeWhile (\<lambda>u. u \<noteq> 61) (b64_encode xs)"
proof -
  let ?g = "takeWhile (\<lambda>u. u \<noteq> 61) (b64_encode xs)"
  let ?p = "dropWhile (\<lambda>u. u \<noteq> 61) (b64_encode xs)"
  have "61 \<notin> set ?g"
    by (auto dest: set_takeWhileD)
  then have "strip_padding (?g @ ?p) = ?g"
    using b64_encode_padding by (rule strip_padding_append)
  then show ?thesis by simp
qed

lemma sextets:
  fixes a b c :: nat
  assumes "a < 256" "b < 256" "c < 256"
  shows "a div 4 < 64" "(a mod 4) * 16 + b div 16 < 64" "(b mod 16) * 4 + c div 64 < 64"
    "c mod 64 < 64" "(a mod 4) * 16 < 64" "(b mod 16) * 4 < 64"
    "a div 4 * 4 + ((a mod 4) * 16 + b div 16) div 16 = a"
    "((a mod 4) * 16 + b div 16) mod 16 * 16 + ((b mod 16) * 4 + c div 64) div 4 = b"
    "((b mod 16) * 4 + c div 64) mod 4 * 64 + c mod 64 = c"
    "a div 4 * 4 + ((a mod 4) * 16) div 16 = a"
    "((a mod 4) * 16 + b div 16) mod 16 * 16 + ((b mod 16) * 4) div 4 = b"
proof -
  have a4: "a mod 4 < 4" and b16: "b mod 16 < 16" by simp_all
  have bd: "b div 16 < 16" and cd: "c div 64 < 4"
    using assms by (simp_all add: div_less_iff_less_mult)
  show "a div 4 < 64" using assms by (simp add: div_less_iff_less_mult)
  show "(a mod 4) * 16 + b div 16 < 64" using a4 bd by linarith
  show "(b mod 16) * 4 + c div 64 < 64" using b16 cd by linarith
  show "c mod 64 < 64" by simp
  show "(a mod 4) * 16 < 64" using a4 by linarith
  show "(b mod 16) * 4 < 64" using b16 by linarith
  have e1: "((a mod 4) * 16 + b div 16) div 16 = a mod 4" using bd by simp
  have e2: "((a mod 4) * 16 + b div 16) mod 16 = b div 16" using bd by simp
  have e3: "((b mod 16) * 4 + c div 64) div 4 = b mod 16" using cd by simp
  have e4: "((b mod 16) * 4 + c div 64) mod 4 = c div 64" using cd by simp
  show "a div 4 * 4 + ((a mod 4) * 16 + b div 16) div 16 = a" by (simp add: e1)
  show "((a mod 4) * 16 + b div 16) mod 16 * 16 + ((b mod 16) * 4 + c div 64) div 4 = b"
    using bd by (simp add: e3)
  show "((b mod 16) * 4 + c div 64) mod 4 * 64 + c mod 64 = c" using cd by simp
  show "a div 4 * 4 + ((a mod 4) * 16) div 16 = a" by simp
  show "((a mod 4) * 16 + b div 16) mod 16 * 16 + ((b mod 16) * 4) div 4 = b"
    using bd by simp
qed

lemma b64_decode_body:
  "\<forall>x\<in>set xs. x < 256 \<Longrightarrow>
   \<exists>ks. those (map b64_value (takeWhile (\<lambda>u. u \<noteq> 61) (b64_encode xs))) = Some ks
       \<and> b64_decode ks = xs"
proof (induction xs rule: b64_encode.induct)
  case 1
  then show ?case by simp
next
  case (2 a)
  then show ?case
    using sextets [of a 0 0] by (simp add: b64_char_plain b64_value_char)
next
  case (3 a b)
  then show ?case
    using sextets [of a b 0] by (simp add: b64_char_plain b64_value_char)
next
  case (4 a b c r)
  then obtain ks where ks: "those (map b64_value (takeWhile (\<lambda>u. u \<noteq> 61) (b64_encode r))) = Some ks"
    "b64_decode ks = r"
    by auto
  from 4(2) have "a < 256" "b < 256" "c < 256" by auto
  then show ?case
    using sextets [of a b c] ks by (simp add: b64_char_plain b64_value_char)
qed

lemma atob_b64_encode:
  assumes "\<forall>x\<in>set xs. x < 256"
  shows "atob (b64_encode xs) = Some xs"
proof -
  obtain ks where "those (map b64_value (takeWhile (\<lambda>u. u \<noteq> 61) (b64_encode xs))) = Some ks"
    "b64_decode ks = xs"
    using b64_decode_body [OF assms] by auto
  then show ?thesis
    using length_b64_body [of xs]
    by (simp add: atob_def Let_def b64_encode_clean length_b64_encode strip_padding_b64_encode)
qed

lemma str_includes_unit: "str_includes s [c] \<longleftrightarrow> c \<in> set s"
  by (induction s) (auto simp: str_includes_def startsWith_def)

lemma base64ToUint8Array_b64_encode:
  "base64ToUint8Array (b64_encode (map unat bs)) = Inr bs"
proof -
  have "\<forall>x\<in>set (map unat bs). x < 256"
    using unat_byte_le [of bs] by (auto simp: list_ex_iff not_less)
  then have "atob (b64_encode (map unat bs)) = Some (map unat bs)"
    by (rule atob_b64_encode)
  moreover have "str '','' = [44]"
    by (simp add: str_def)
  ultimately show ?thesis
    by (simp add: base64ToUint8Array_def str_includes_unit b64_encode_clean map_idI)
qed

text \<open>
  C8: for every binary content, the encoder succeeds, the decoder gives the content back
  from the encoder's text, and encoding the decoded bytes again gives that same text.
\<close>

theorem encode_decode_encode:
  "\<exists>s. fileToBase64 f = Inr s \<and> base64ToUint8Array s = Inr (bytes f) \<and> reencode f = Inr s"
  by (simp add: reencode_def fileToBase64_eq base64ToUint8Array_b64_encode)

subsection \<open>Evaluating the examples\<close>

lemma str_Cons: "str [] = []" "str (c # cs) = of_char c # str cs"
  by (simp_all add: str_def)

lemma example_lower: "toLowerCase example_platform = latin1_lower"
  by (simp add: example_platform_def)

lemmas string_defs =
  str_Cons str_includes_def startsWith_def example_lower latin1_lower_def lower_unit_def trim_def
  is_ws_def truthy_str_def or_else_def

lemma example_selectors:
  "elapsed example_platform = Fin 12" "env (multipart_request kvs) = example_env"
  "env (json_request raw) = example_env"
  by (simp_all add: example_platform_def multipart_request_def json_request_def)

lemma example_prepare:
  "prepareFile example_platform example_file (str ''scan.png'') =
     Inr \<lparr>prepared_base64 = str ''iVBORw=='', prepared_mimeType = str ''image/png'',
          prepared_filename = str ''scan.png''\<rparr>"
  by (simp add: prepareFile_def fileToBase64_eq example_file_def b64_char_def str_Cons)

lemma example_validate:
  "validateFile example_platform example_file (str ''scan.png'') example_env = Inr ()"
  by (simp add: validateFile_def getMaxFileSize_def example_env_def DEFAULT_MAX_FILE_SIZE_def
      size_of_def example_file_def parseSupportedFormats_def DEFAULT_SUPPORTED_FORMATS_def
      isAllowedFormat_def format_matches_def getExtension_def string_defs Let_def)

lemma example_invoke:
  "invokeSiliconFlow example_platform b64 mt p example_env =
     Inr (str ''ok'', JUndefined, JStr (str ''deepseek-ai/DeepSeek-OCR''))"
  by (simp add: invokeSiliconFlow_def example_env_def example_platform_def ok_def
      example_payload_def extractTextFromResponse_def first_choice_def message_content_def
      string_defs Let_def)

lemma example_locate_parse:
  "parseInput example_platform (multipart_request locate_fields) (Some text_localization) =
     Inr \<lparr>input_file = example_file, filename = str ''scan.png'', taskType = text_localization,
          customPrompt = None, targetText = Some (str ''total'')\<rparr>"
  by (simp add: parseInput_def multipart_request_def parseMultipart_def locate_fields_def form_of_def
      resolveTaskType_def example_file_def string_defs)

lemma example_locate_prompt:
  "buildPrompt (TASK_CONFIGS text_localization) None (Some (str ''total'')) =
     Inr (str ''<image>'' @ [10] @ str ''Locate <|ref|>total<|/ref|> in the image.'')"
  by (simp add: buildPrompt_def replace_def string_defs)

lemma example_locate:
  "OcrLocateRoute example_platform (multipart_request locate_fields) =
     Inr \<lparr>status = 200,
      body = Success (example_data text_localization
               (str ''<image>'' @ [10] @ str ''Locate <|ref|>total<|/ref|> in the image.''))\<rparr>"
  by (simp add: OcrLocateRoute_def createAliasRoute_def handleOcrRequest_def processRequest_def
      example_locate_parse example_locate_prompt example_validate example_prepare example_invoke
      example_data_def example_selectors del: TASK_CONFIGS.simps)

lemma example_bogus_parse:
  "parseInput example_platform (multipart_request bogus_fields) (Some general_ocr) =
     Inr \<lparr>input_file = example_file, filename = str ''scan.png'', taskType = general_ocr,
          customPrompt = None, targetText = None\<rparr>"
  by (simp add: parseInput_def multipart_request_def parseMultipart_def bogus_fields_def form_of_def
      resolveTaskType_def example_file_def string_defs)

lemma example_bogus:
  "createAliasRoute general_ocr example_platform (multipart_request bogus_fields) =
     Inr \<lparr>status = 200,
      body = Success (example_data general_ocr
               (str ''<image>'' @ [10] @ str ''<|grounding|>OCR this image.''))\<rparr>"
  by (simp add: createAliasRoute_def handleOcrRequest_def processRequest_def
      example_bogus_parse buildPrompt_def example_validate example_prepare example_invoke
      example_data_def example_selectors)

subsection \<open>Task resolution\<close>

lemma parseInput_forced: "parseInput pf c (Some t) = Inr p \<Longrightarrow> taskType p = t"
  by (auto simp: parseInput_def parseMultipart_def parseJson_def resolveTaskType_def Let_def
      split: if_splits option.splits sum.splits jsval.splits)

lemma processRequest_taskType:
  "processRequest pf c forced = Inr d \<Longrightarrow>
   \<exists>p. parseInput pf c forced = Inr p \<and> data_taskType d = taskType p"
  by (auto simp: processRequest_def Let_def split: sum.splits prod.splits)

lemma handleOcrRequest_success:
  "handleOcrRequest pf c forced = Inr r \<Longrightarrow> body r = Success d \<Longrightarrow>
   processRequest pf c forced = Inr d"
  by (auto simp: handleOcrRequest_def handleError_def Response_json_def
      split: sum.splits exn.splits if_splits)

text \<open>
  C1: on each of the six alias endpoints, the task type in the data of a successful
  response is the endpoint's fixed task, whatever the request holds.
\<close>

theorem alias_endpoint_taskType:
  assumes "(path, t, route) \<in> set alias_endpoints"
    and "route pf c = Inr r"
    and "body r = Success d"
  shows "data_taskType d = t"
proof -
  from assms(1) have "route = createAliasRoute t"
    by (auto simp: alias_endpoints_def OcrConvertRoute_def OcrGeneralRoute_def OcrSimpleRoute_def
        OcrChartRoute_def OcrDescribeRoute_def OcrLocateRoute_def)
  with assms(2) have "handleOcrRequest pf c (Some t) = Inr r"
    by (simp add: createAliasRoute_def)
  then have "processRequest pf c (Some t) = Inr d"
    using assms(3) by (rule handleOcrRequest_success)
  then show ?thesis
    using processRequest_taskType parseInput_forced by fastforce
qed

theorem alias_endpoint_taskType_witness:
  "(str ''/api/ocr/locate'', text_localization, OcrLocateRoute) \<in> set alias_endpoints
   \<and> OcrLocateRoute example_platform (multipart_request locate_fields) =
       Inr \<lparr>status = 200,
            body = Success (example_data text_localization
              (str ''<image>'' @ [10] @ str ''Locate <|ref|>total<|/ref|> in the image.''))\<rparr>
   \<and> data_taskType (example_data text_localization
         (str ''<image>'' @ [10] @ str ''Locate <|ref|>total<|/ref|> in the image.'')) =
       text_localization"
proof -
  have m: "(str ''/api/ocr/locate'', text_localization, OcrLocateRoute) \<in> set alias_endpoints"
    by (simp add: alias_endpoints_def)
  have b: "OcrLocateRoute example_platform (multipart_request locate_fields) =
       Inr \<lparr>status = 200,
            body = Success (example_data text_localization
              (str ''<image>'' @ [10] @ str ''Locate <|ref|>total<|/ref|> in the image.''))\<rparr>"
    by (rule example_locate)
  show ?thesis
    using m b alias_endpoint_taskType [OF m b] by simp
qed

subsection \<open>The JSON path\<close>

lemma parseInput_json: "json_path c \<Longrightarrow> parseInput pf c forced = parseJson pf c forced"
  by (simp add: parseInput_def json_path_def multipart_path_def)

lemma parseInput_multipart: "multipart_path c \<Longrightarrow> parseInput pf c forced = parseMultipart c forced"
  by (simp add: parseInput_def multipart_path_def)

lemma handleOcrRequest_parse_error:
  "parseInput pf c forced = Inl e \<Longrightarrow> handleOcrRequest pf c forced = handleError e"
  by (simp add: handleOcrRequest_def processRequest_def)

lemma example_paths:
  "json_path (json_request raw)" "multipart_path (multipart_request kvs)"
  by (simp_all add: json_path_def multipart_path_def json_request_def multipart_request_def
      string_defs)

text \<open>
  C9: a request on the JSON path whose body is not JSON is answered with status 500 and
  the code INTERNAL_ERROR: reading the body raises a SyntaxError, which is no OcrError.
\<close>

theorem invalid_json_body_internal_error:
  assumes "json_path c" and "json c = None"
  shows "parseJson pf c forced = Inl SyntaxError
    \<and> handleOcrRequest pf c forced =
        Inr \<lparr>status = 500, body = Failure (str ''INTERNAL_ERROR'') msg_internal None\<rparr>"
proof -
  have p: "parseJson pf c forced = Inl SyntaxError"
    using assms(2) by (simp add: parseJson_def)
  then have "parseInput pf c forced = Inl SyntaxError"
    using assms(1) by (simp add: parseInput_json)
  then show ?thesis
    using p by (simp add: handleOcrRequest_parse_error handleError_def Response_json_def)
qed

theorem invalid_json_body_internal_error_witness:
  "json_path (json_request None) \<and> json (json_request None) = None
   \<and> handleOcrRequest example_platform (json_request None) None =
       Inr \<lparr>status = 500, body = Failure (str ''INTERNAL_ERROR'') msg_internal None\<rparr>"
proof -
  have j: "json_path (json_request None)"
    by (rule example_paths)
  have n: "json (json_request None) = None"
    by (simp add: json_request_def)
  show ?thesis
    using j n invalid_json_body_internal_error [OF j n, of example_platform None] by simp
qed

lemma TaskTypeSchema_Some: "TaskTypeSchema s = Some t \<Longrightarrow> s = task_name t"
  by (auto simp: TaskTypeSchema_def split: if_splits)

lemma parse_taskType_invalid:
  assumes "v \<noteq> JUndefined" and "\<not> enum_member v"
  shows "\<exists>i. parse_taskType v = Inl i"
proof (cases v)
  case (JStr s)
  have "TaskTypeSchema s = None"
  proof (cases "TaskTypeSchema s")
    case (Some t)
    then have "s = task_name t" by (rule TaskTypeSchema_Some)
    then have "enum_member v"
      using JStr by (cases t) (simp_all add: enum_member_def)
    with assms(2) show ?thesis by simp
  qed simp
  then show ?thesis
    using JStr by (simp add: parse_taskType_def)
qed (use assms in \<open>simp_all add: parse_taskType_def\<close>)

lemma safeParse_taskType_issue:
  "parse_taskType (get_prop (JObj kvs) (str ''taskType'')) = Inl i \<Longrightarrow>
   \<exists>issues. JsonRequestSchema_safeParse (JObj kvs) = Inl issues"
  by (simp add: JsonRequestSchema_safeParse_def Let_def split: sum.splits)

lemma resolveTaskType_forced: "resolveTaskType (Some t) candidate = Inr t"
  by (simp add: resolveTaskType_def)

lemma parseMultipart_forced_ignores:
  "parseMultipart (c\<lparr>parseBody := Some (form(str ''taskType'' := v))\<rparr>) (Some t) =
   parseMultipart (c\<lparr>parseBody := Some form\<rparr>) (Some t)"
  by (simp add: parseMultipart_def resolveTaskType_forced str_Cons Let_def split: jsval.splits)

lemma processRequest_cong:
  assumes "parseInput pf c forced = parseInput pf c' forced" and "env c = env c'"
  shows "processRequest pf c forced = processRequest pf c' forced"
  unfolding processRequest_def assms by (rule refl)

text \<open>
  C10: on an alias endpoint, a JSON body whose \<open>taskType\<close> is present and no member of the
  enumeration is rejected with INVALID_JSON and status 400; on the multipart path the
  response does not depend on the \<open>taskType\<close> field, and a request with such a field can
  succeed.
\<close>

theorem invalid_taskType_json_rejected_multipart_ignored:
  "(json_path c \<and> json c = Some (JObj kvs) \<and> map_of kvs (str ''taskType'') = Some v
      \<and> v \<noteq> JUndefined \<and> \<not> enum_member v
      \<longrightarrow> is_error (createAliasRoute t pf c) 400 (str ''INVALID_JSON''))
   \<and> (multipart_path c' \<longrightarrow>
        createAliasRoute t pf (c'\<lparr>parseBody := Some (form(str ''taskType'' := v'))\<rparr>) =
        createAliasRoute t pf (c'\<lparr>parseBody := Some form\<rparr>))
   \<and> createAliasRoute general_ocr example_platform (multipart_request bogus_fields) =
       Inr \<lparr>status = 200,
            body = Success (example_data general_ocr
              (str ''<image>'' @ [10] @ str ''<|grounding|>OCR this image.''))\<rparr>"
proof (intro conjI impI)
  assume a: "json_path c \<and> json c = Some (JObj kvs) \<and> map_of kvs (str ''taskType'') = Some v
      \<and> v \<noteq> JUndefined \<and> \<not> enum_member v"
  then have "get_prop (JObj kvs) (str ''taskType'') = v" by simp
  then obtain i where "parse_taskType (get_prop (JObj kvs) (str ''taskType'')) = Inl i"
    using a parse_taskType_invalid by metis
  then obtain issues where "JsonRequestSchema_safeParse (JObj kvs) = Inl issues"
    using safeParse_taskType_issue by blast
  then have "parseJson pf c (Some t) =
      Inl (OcrError 400 (str ''INVALID_JSON'') (formatZodError pf issues) None)"
    using a by (simp add: parseJson_def)
  then have "handleOcrRequest pf c (Some t) =
      Inr \<lparr>status = 400,
           body = Failure (str ''INVALID_JSON'') (formatZodError pf issues) None\<rparr>"
    using a
    by (simp add: handleOcrRequest_parse_error parseInput_json handleError_def Response_json_def)
  then show "is_error (createAliasRoute t pf c) 400 (str ''INVALID_JSON'')"
    by (simp add: createAliasRoute_def is_error_def)
next
  assume m: "multipart_path c'"
  let ?a = "c'\<lparr>parseBody := Some (form(str ''taskType'' := v'))\<rparr>"
  let ?b = "c'\<lparr>parseBody := Some form\<rparr>"
  have "multipart_path ?a" "multipart_path ?b"
    using m by (simp_all add: multipart_path_def)
  then have "parseInput pf ?a (Some t) = parseInput pf ?b (Some t)"
    by (simp add: parseInput_multipart parseMultipart_forced_ignores)
  then have "processRequest pf ?a (Some t) = processRequest pf ?b (Some t)"
    by (rule processRequest_cong) simp
  then show "createAliasRoute t pf ?a = createAliasRoute t pf ?b"
    by (simp add: createAliasRoute_def handleOcrRequest_def)
next
  show "createAliasRoute general_ocr example_platform (multipart_request bogus_fields) =
       Inr \<lparr>status = 200,
            body = Success (example_data general_ocr
              (str ''<image>'' @ [10] @ str ''<|grounding|>OCR this image.''))\<rparr>"
    by (rule example_bogus)
qed

theorem invalid_taskType_json_rejected_multipart_ignored_witness:
  "json_path (json_request (Some (JObj bogus_json)))
   \<and> map_of bogus_json (str ''taskType'') = Some (JStr (str ''bogus''))
   \<and> \<not> enum_member (JStr (str ''bogus''))
   \<and> is_error (createAliasRoute general_ocr example_platform (json_request (Some (JObj bogus_json))))
        400 (str ''INVALID_JSON'')
   \<and> multipart_path (multipart_request [(str ''image'', JFile example_file)])
   \<and> createAliasRoute general_ocr example_platform
        ((multipart_request [(str ''image'', JFile example_file)])
           \<lparr>parseBody := Some ((form_of [(str ''image'', JFile example_file)])
                                 (str ''taskType'' := JStr (str ''bogus'')))\<rparr>) =
      createAliasRoute general_ocr example_platform
        ((multipart_request [(str ''image'', JFile example_file)])
           \<lparr>parseBody := Some (form_of [(str ''image'', JFile example_file)])\<rparr>)"
proof -
  have j: "json_path (json_request (Some (JObj bogus_json)))"
    and m: "multipart_path (multipart_request [(str ''image'', JFile example_file)])"
    by (rule example_paths)+
  have k: "map_of bogus_json (str ''taskType'') = Some (JStr (str ''bogus''))"
    by (simp add: bogus_json_def str_Cons)
  have e: "\<not> enum_member (JStr (str ''bogus''))"
    by (simp add: enum_member_def str_Cons)
  have s: "json (json_request (Some (JObj bogus_json))) = Some (JObj bogus_json)"
    by (simp add: json_request_def)
  show ?thesis
    using j m k e s
      invalid_taskType_json_rejected_multipart_ignored
        [of "json_request (Some (JObj bogus_json))" bogus_json "JStr (str ''bogus'')"
          general_ocr example_platform "multipart_request [(str ''image'', JFile example_file)]"
          "form_of [(str ''image'', JFile example_file)]" "JStr (str ''bogus'')"]
    by simp
qed

subsection \<open>The image of a JSON request\<close>

lemma safeParse_image: "JsonRequestSchema_safeParse raw = Inr p \<Longrightarrow> req_image p \<noteq> []"
  by (auto simp: JsonRequestSchema_safeParse_def parse_image_def Let_def
      split: jsval.splits sum.splits if_splits)

text \<open>The branch of \<open>parseJson\<close> that raises MISSING_IMAGE is never taken: a body the
  schema accepts has an image of at least one code unit.\<close>

lemma missing_image_unreachable:
  "parseJson pf c forced \<noteq> Inl (OcrError st (str ''MISSING_IMAGE'') msg det)"
proof (cases "json c")
  case None
  then show ?thesis by (simp add: parseJson_def)
next
  case (Some raw)
  show ?thesis
  proof (cases "JsonRequestSchema_safeParse raw")
    case (Inl issues)
    then show ?thesis
      using Some by (simp add: parseJson_def str_Cons)
  next
    case (Inr p)
    then have "req_image p \<noteq> []" by (rule safeParse_image)
    then show ?thesis
      using Some Inr
      by (auto simp: parseJson_def Let_def base64ToUint8Array_def resolveTaskType_def str_Cons
          split: sum.splits option.splits if_splits)
  qed
qed

text \<open>
  C7: a JSON body without an image is not answered with MISSING_IMAGE: the schema
  rejects it first, and the response carries INVALID_JSON with the schema's message.
\<close>

theorem missing_image_reported_as_invalid_json:
  "handleOcrRequest pf (json_request (Some (JObj []))) forced =
     Inr \<lparr>status = 400,
      body = Failure (str ''INVALID_JSON'')
               (issue_message pf (ZodIssue invalid_type (str ''image'') JUndefined)) None\<rparr>"
proof -
  have "JsonRequestSchema_safeParse (JObj []) =
      Inl [ZodIssue invalid_type (str ''image'') JUndefined]"
    by (simp add: JsonRequestSchema_safeParse_def parse_taskType_def parse_image_def
        parse_optional_string_def issues_of_def)
  then have "parseJson pf (json_request (Some (JObj []))) forced =
      Inl (OcrError 400 (str ''INVALID_JSON'')
             (issue_message pf (ZodIssue invalid_type (str ''image'') JUndefined)) None)"
    by (simp add: parseJson_def json_request_def formatZodError_def)
  then show ?thesis
    by (simp add: handleOcrRequest_parse_error parseInput_json example_paths handleError_def
        Response_json_def)
qed

subsection \<open>The prompt\<close>

lemma getSubstitution_plain:
  "36 \<notin> set repl \<Longrightarrow> getSubstitution matched preceding following repl = repl"
  by (induction matched preceding following repl rule: getSubstitution.induct) auto

lemma replace_plain: "36 \<notin> set repl \<Longrightarrow> replace s pat repl = replace_literal s pat repl"
  by (simp add: replace_def replace_literal_def getSubstitution_plain split: option.splits)

text \<open>For a target text without a dollar sign the prompt is the described one.\<close>

lemma buildPrompt_described:
  assumes "target \<noteq> []" and "36 \<notin> set target" and "custom \<noteq> Some []"
  shows "buildPrompt config custom (Some target) = Inr (described_prompt config custom target)"
  using assms
  by (cases custom)
    (simp_all add: buildPrompt_def described_prompt_def replace_plain truthy_str_def or_else_def
      Let_def)

text \<open>
  C2: with the target text \<open>$&\<close> the prompt of the text-localization task is the template
  with its placeholder still in it, where the described prompt has the target text in
  the placeholder's place: \<open>replace\<close> reads the dollar patterns of its replacement text.
\<close>

theorem buildPrompt_dollar_target:
  "buildPrompt (TASK_CONFIGS text_localization) None (Some (str ''$&'')) =
     Inr (str ''<image>'' @ [10] @ str ''Locate <|ref|>{{target}}<|/ref|> in the image.'')
   \<and> described_prompt (TASK_CONFIGS text_localization) None (str ''$&'') =
     str ''<image>'' @ [10] @ str ''Locate <|ref|>$&<|/ref|> in the image.''"
  by (simp add: buildPrompt_def described_prompt_def replace_def replace_literal_def string_defs)

subsection \<open>The upstream response\<close>

lemma extract_no_choice:
  "\<not> truthy (first_choice payload) \<Longrightarrow>
   extractTextFromResponse payload =
     Inl (OcrError 502 (str ''EMPTY_RESPONSE'') msg_no_content None)"
  by (simp add: extractTextFromResponse_def)

lemma extract_string:
  "truthy (first_choice payload) \<Longrightarrow> message_content (first_choice payload) = JStr s \<Longrightarrow>
   extractTextFromResponse payload =
     (if trim s = [] then Inl (OcrError 502 (str ''EMPTY_RESPONSE'') msg_empty_result None)
      else Inr (trim s, get_prop (first_choice payload) (str ''confidence'')))"
  by (simp add: extractTextFromResponse_def)

lemma extract_list:
  "truthy (first_choice payload) \<Longrightarrow> message_content (first_choice payload) = JArr parts \<Longrightarrow>
   extractTextFromResponse payload =
     (if trim (join [10] (map part_text parts)) = []
      then Inl (OcrError 502 (str ''EMPTY_RESPONSE'') msg_empty_result None)
      else Inr (trim (join [10] (map part_text parts)),
                get_prop (first_choice payload) (str ''confidence'')))"
  by (simp add: extractTextFromResponse_def)

lemma extract_other:
  "truthy (first_choice payload) \<Longrightarrow> \<not> text_content (message_content (first_choice payload)) \<Longrightarrow>
   extractTextFromResponse payload =
     Inl (OcrError 502 (str ''EMPTY_RESPONSE'') msg_empty_result None)"
  by (cases "message_content (first_choice payload)")
    (simp_all add: extractTextFromResponse_def text_content_def)

lemma extract_nonempty: "extractTextFromResponse payload = Inr (t, conf) \<Longrightarrow> t \<noteq> []"
  by (auto simp: extractTextFromResponse_def Let_def split: if_splits)

lemma content_payload_choice:
  "truthy (first_choice (content_payload content))"
  "message_content (first_choice (content_payload content)) = content"
  "get_prop (first_choice (content_payload content)) (str ''confidence'') = JUndefined"
  by (simp_all add: content_payload_def first_choice_def message_content_def str_Cons)

lemma part_text_simps:
  "part_text (text_part s) = s" "part_text (JObj []) = []"
  by (simp_all add: part_text_def text_part_def)

text \<open>
  C3, as the claim states it, fails: for the parts \<open>{text: " A"}\<close>, \<open>{}\<close>, \<open>{text: "B"}\<close> the
  extracted text is \<open>"A\n\nB"\<close>, and the string-valued text parts joined with newlines
  are \<open>" A\nB"\<close>.
\<close>

lemma example_parts_text:
  "trim (join [10] (map part_text [text_part (str '' A''), JObj [], text_part (str ''B'')])) =
     str ''A'' @ [10, 10] @ str ''B''"
  "trim (join [10] (map part_text [text_part (str ''A''), text_part (str ''B'')])) =
     str ''A'' @ [10] @ str ''B''"
  "str ''A'' @ [10, 10] @ str ''B'' \<noteq> []" "str ''A'' @ [10] @ str ''B'' \<noteq> []"
  by (simp_all add: part_text_simps string_defs)

lemma extract_content_list:
  "extractTextFromResponse (content_payload (JArr parts)) =
     (if trim (join [10] (map part_text parts)) = []
      then Inl (OcrError 502 (str ''EMPTY_RESPONSE'') msg_empty_result None)
      else Inr (trim (join [10] (map part_text parts)), JUndefined))"
  using extract_list [OF content_payload_choice(1) content_payload_choice(2)]
  by (simp add: content_payload_choice(3))

theorem extracted_list_text_counterexample:
  "extractTextFromResponse
     (content_payload (JArr [text_part (str '' A''), JObj [], text_part (str ''B'')])) =
     Inr (str ''A'' @ [10, 10] @ str ''B'', JUndefined)
   \<and> join [10] (string_text_parts [text_part (str '' A''), JObj [], text_part (str ''B'')]) =
     str '' A'' @ [10] @ str ''B''"
proof
  show "extractTextFromResponse
     (content_payload (JArr [text_part (str '' A''), JObj [], text_part (str ''B'')])) =
     Inr (str ''A'' @ [10, 10] @ str ''B'', JUndefined)"
    by (simp only: extract_content_list example_parts_text if_False)
  show "join [10] (string_text_parts [text_part (str '' A''), JObj [], text_part (str ''B'')]) =
     str '' A'' @ [10] @ str ''B''"
    by (simp add: string_text_parts_def List.map_filter_simps text_part_def)
qed

text \<open>
  C3, amended: a payload without a first choice fails with EMPTY_RESPONSE and status
  502; so do a message content that is a string and trims to the empty string and a
  message content that is neither a string nor a list; a string content that does not
  trim to the empty string yields its trimmed text; a success never carries an empty
  text; and for a content that is a list of parts the
  text is the parts' texts joined with newlines and then trimmed, where a part without
  a string-valued text counts as the empty string, and an empty result fails with
  EMPTY_RESPONSE and status 502. The parts \<open>{text: "A"}\<close>, \<open>{text: "B"}\<close> yield \<open>"A\nB"\<close>,
  and an empty list of choices and the content \<open>""\<close> fail.
\<close>

theorem extractTextFromResponse_outcomes:
  "(\<not> truthy (first_choice payload) \<longrightarrow>
      extractTextFromResponse payload =
        Inl (OcrError 502 (str ''EMPTY_RESPONSE'') msg_no_content None))
   \<and> (truthy (first_choice payload) \<and> message_content (first_choice payload) = JStr s
        \<and> trim s = [] \<longrightarrow>
      extractTextFromResponse payload =
        Inl (OcrError 502 (str ''EMPTY_RESPONSE'') msg_empty_result None))
   \<and> (extractTextFromResponse payload = Inr (t, conf) \<longrightarrow> t \<noteq> [])
   \<and> (truthy (first_choice payload) \<and> message_content (first_choice payload) = JArr parts \<longrightarrow>
      extractTextFromResponse payload =
        (if trim (join [10] (map part_text parts)) = []
         then Inl (OcrError 502 (str ''EMPTY_RESPONSE'') msg_empty_result None)
         else Inr (trim (join [10] (map part_text parts)),
                   get_prop (first_choice payload) (str ''confidence''))))
   \<and> extractTextFromResponse (content_payload (JArr [text_part (str ''A''), text_part (str ''B'')])) =
        Inr (str ''A'' @ [10] @ str ''B'', JUndefined)
   \<and> extractTextFromResponse (JObj [(str ''choices'', JArr [])]) =
        Inl (OcrError 502 (str ''EMPTY_RESPONSE'') msg_no_content None)
   \<and> extractTextFromResponse (content_payload (JStr [])) =
        Inl (OcrError 502 (str ''EMPTY_RESPONSE'') msg_empty_result None)
   \<and> (truthy (first_choice payload) \<and> \<not> text_content (message_content (first_choice payload))
        \<longrightarrow>
      extractTextFromResponse payload =
        Inl (OcrError 502 (str ''EMPTY_RESPONSE'') msg_empty_result None))
   \<and> (truthy (first_choice payload) \<and> message_content (first_choice payload) = JStr s
        \<and> trim s \<noteq> [] \<longrightarrow>
      extractTextFromResponse payload =
        Inr (trim s, get_prop (first_choice payload) (str ''confidence'')))"
proof (intro conjI impI)
  show "extractTextFromResponse (content_payload (JArr [text_part (str ''A''), text_part (str ''B'')])) =
        Inr (str ''A'' @ [10] @ str ''B'', JUndefined)"
    by (simp only: extract_content_list example_parts_text if_False)
  show "extractTextFromResponse (JObj [(str ''choices'', JArr [])]) =
        Inl (OcrError 502 (str ''EMPTY_RESPONSE'') msg_no_content None)"
    by (simp add: extractTextFromResponse_def first_choice_def)
  show "extractTextFromResponse (content_payload (JStr [])) =
        Inl (OcrError 502 (str ''EMPTY_RESPONSE'') msg_empty_result None)"
    by (simp add: extract_string content_payload_choice trim_def)
qed (simp_all add: extract_no_choice extract_string extract_list extract_nonempty extract_other)

theorem extractTextFromResponse_outcomes_witness:
  "\<not> truthy (first_choice JUndefined)
   \<and> extractTextFromResponse JUndefined =
       Inl (OcrError 502 (str ''EMPTY_RESPONSE'') msg_no_content None)
   \<and> truthy (first_choice (content_payload (JStr (str ''  ''))))
   \<and> trim (str ''  '') = []
   \<and> extractTextFromResponse (content_payload (JStr (str ''  ''))) =
       Inl (OcrError 502 (str ''EMPTY_RESPONSE'') msg_empty_result None)
   \<and> extractTextFromResponse
        (content_payload (JArr [text_part (str '' A''), JObj [], text_part (str ''B'')])) =
       Inr (str ''A'' @ [10, 10] @ str ''B'', JUndefined)
   \<and> str ''A'' @ [10, 10] @ str ''B'' \<noteq> []
   \<and> \<not> text_content JNull
   \<and> extractTextFromResponse (content_payload JNull) =
       Inl (OcrError 502 (str ''EMPTY_RESPONSE'') msg_empty_result None)
   \<and> trim (str '' ok '') = str ''ok''
   \<and> extractTextFromResponse (content_payload (JStr (str '' ok ''))) =
       Inr (str ''ok'', JUndefined)"
proof -
  let ?parts = "[text_part (str '' A''), JObj [], text_part (str ''B'')]"
  have o: "\<not> text_content JNull"
    by (simp add: text_content_def)
  have g: "trim (str '' ok '') = str ''ok''" "str ''ok'' \<noteq> []"
    by (simp_all add: string_defs)
  note u = extractTextFromResponse_outcomes [of "content_payload JNull" "[]" "[]" JUndefined "[]"]
  note v = extractTextFromResponse_outcomes
    [of "content_payload (JStr (str '' ok ''))" "str '' ok ''" "[]" JUndefined "[]"]
  have n: "\<not> truthy (first_choice JUndefined)"
    by (simp add: first_choice_def)
  have b: "trim (str ''  '') = []"
    by (simp add: string_defs)
  have j: "trim (join [10] (map part_text ?parts)) = str ''A'' @ [10, 10] @ str ''B''"
    by (rule example_parts_text)
  have k: "str ''A'' @ [10, 10] @ str ''B'' \<noteq> []"
    by (rule example_parts_text)
  note a = extractTextFromResponse_outcomes [of JUndefined "[]" "[]" JUndefined "[]"]
  note s = extractTextFromResponse_outcomes
    [of "content_payload (JStr (str ''  ''))" "str ''  ''" "[]" JUndefined "[]"]
  note l = extractTextFromResponse_outcomes
    [of "content_payload (JArr ?parts)" "[]" "str ''A'' @ [10, 10] @ str ''B''" JUndefined ?parts]
  show ?thesis
    using n b j k o g a s l u v by (simp add: content_payload_choice)
qed

subsection \<open>The size limit\<close>

lemma getMaxFileSize_cases:
  "getMaxFileSize pf None = 10485760"
  "Number pf v = NaN \<Longrightarrow> getMaxFileSize pf (Some v) = 10485760"
  "Number pf v = Fin q \<Longrightarrow> q \<le> 0 \<Longrightarrow> getMaxFileSize pf (Some v) = 10485760"
  "v \<noteq> [] \<Longrightarrow> Number pf v = Fin q \<Longrightarrow> 0 < q \<Longrightarrow> getMaxFileSize pf (Some v) = q"
  "Number pf v = PosInfinity \<Longrightarrow> getMaxFileSize pf (Some v) = 10485760"
  "Number pf v = NegInfinity \<Longrightarrow> getMaxFileSize pf (Some v) = 10485760"
  "getMaxFileSize pf (Some []) = 10485760"
  by (simp_all add: getMaxFileSize_def truthy_str_def or_else_def DEFAULT_MAX_FILE_SIZE_def)

lemma validateFile_too_large:
  "getMaxFileSize pf (MAX_FILE_SIZE e) < of_nat (size_of f) \<Longrightarrow>
   validateFile pf f name e =
     Inl (OcrError 413 (str ''FILE_TOO_LARGE'')
            (too_large_message pf (getMaxFileSize pf (MAX_FILE_SIZE e))) None)"
  by (simp add: validateFile_def)

lemma validateFile_within:
  "\<not> getMaxFileSize pf (MAX_FILE_SIZE e) < of_nat (size_of f) \<Longrightarrow>
   validateFile pf f name e =
     (if isAllowedFormat pf (parseSupportedFormats pf (SUPPORTED_FORMATS e))
           (if file_type f \<noteq> [] then file_type f else or_else (inferMimeType pf name) []) name
      then Inr ()
      else Inl (OcrError 400 (str ''UNSUPPORTED_FORMAT'') msg_unsupported_format None))"
  by (simp add: validateFile_def Let_def)

lemma code_distinct:
  "str ''UNSUPPORTED_FORMAT'' \<noteq> str ''FILE_TOO_LARGE''"
  by (simp add: str_Cons)

lemma raises_too_large:
  "raises (validateFile pf f name e) st (str ''FILE_TOO_LARGE'') \<longleftrightarrow>
   st = 413 \<and> getMaxFileSize pf (MAX_FILE_SIZE e) < of_nat (size_of f)"
proof (cases "getMaxFileSize pf (MAX_FILE_SIZE e) < of_nat (size_of f)")
  case True
  then show ?thesis
    by (auto simp: validateFile_too_large raises_def)
next
  case False
  then show ?thesis
    by (simp add: validateFile_within raises_def code_distinct)
qed

text \<open>
  C4: validation fails with FILE_TOO_LARGE, and then with status 413, exactly when the
  file has more bytes than the configured maximum, whatever its name, declared type and
  the allow-list are; the message holds the maximum in megabytes, rounded to a whole
  number; the maximum is 10485760 when none is configured and when the configured
  text is empty, no number, an infinite number or a number that is not positive, and
  the configured number otherwise.
\<close>

theorem file_too_large:
  "(raises (validateFile pf f name e) 413 (str ''FILE_TOO_LARGE'') \<longleftrightarrow>
      getMaxFileSize pf (MAX_FILE_SIZE e) < of_nat (size_of f))
   \<and> (raises (validateFile pf f name e) st (str ''FILE_TOO_LARGE'') \<longrightarrow> st = 413)
   \<and> (getMaxFileSize pf (MAX_FILE_SIZE e) < of_nat (size_of f) \<longrightarrow>
        validateFile pf f name e =
          Inl (OcrError 413 (str ''FILE_TOO_LARGE'')
                 (msg_too_large_prefix
                  @ numberToString pf
                      (Fin (of_int \<lfloor>getMaxFileSize pf (MAX_FILE_SIZE e) / 1048576 + 1 / 2\<rfloor>))
                  @ msg_too_large_suffix) None))
   \<and> raises (validateFile pf (f\<lparr>file_name := n', file_type := ty\<rparr>) name'
               (e\<lparr>SUPPORTED_FORMATS := fm\<rparr>)) 413 (str ''FILE_TOO_LARGE'') =
       raises (validateFile pf f name e) 413 (str ''FILE_TOO_LARGE'')
   \<and> getMaxFileSize pf None = 10485760
   \<and> (Number pf v = NaN \<longrightarrow> getMaxFileSize pf (Some v) = 10485760)
   \<and> (Number pf v = Fin q \<and> q \<le> 0 \<longrightarrow> getMaxFileSize pf (Some v) = 10485760)
   \<and> (v \<noteq> [] \<and> Number pf v = Fin q \<and> 0 < q \<longrightarrow> getMaxFileSize pf (Some v) = q)
   \<and> (Number pf v = PosInfinity \<longrightarrow> getMaxFileSize pf (Some v) = 10485760)
   \<and> (Number pf v = NegInfinity \<longrightarrow> getMaxFileSize pf (Some v) = 10485760)
   \<and> getMaxFileSize pf (Some []) = 10485760"
proof (intro conjI impI)
  assume "getMaxFileSize pf (MAX_FILE_SIZE e) < of_nat (size_of f)"
  then show "validateFile pf f name e =
          Inl (OcrError 413 (str ''FILE_TOO_LARGE'')
                 (msg_too_large_prefix
                  @ numberToString pf
                      (Fin (of_int \<lfloor>getMaxFileSize pf (MAX_FILE_SIZE e) / 1048576 + 1 / 2\<rfloor>))
                  @ msg_too_large_suffix) None)"
    by (simp add: validateFile_too_large too_large_message_def Math_round_def)
next
  show "raises (validateFile pf (f\<lparr>file_name := n', file_type := ty\<rparr>) name'
               (e\<lparr>SUPPORTED_FORMATS := fm\<rparr>)) 413 (str ''FILE_TOO_LARGE'') =
       raises (validateFile pf f name e) 413 (str ''FILE_TOO_LARGE'')"
    by (simp add: raises_too_large size_of_def)
qed (auto simp: raises_too_large getMaxFileSize_cases)

lemma example_numbers:
  "Number example_platform (str ''2097152'') = Fin 2097152"
  "Number example_platform (str ''abc'') = NaN"
  "Number example_platform (str ''0'') = Fin 0"
  "numberToString example_platform (Fin 2) = str ''2''"
  "Number example_platform (str ''Infinity'') = PosInfinity"
  "Number example_platform (str ''-Infinity'') = NegInfinity"
  by (simp_all add: example_platform_def decimal_Number_def decimal_value_def is_digit_def
      whole_toString_def show_nat.simps str_Cons)

theorem file_too_large_witness:
  "getMaxFileSize example_platform (Some (str ''2097152'')) = 2097152
   \<and> validateFile example_platform (zero_file (str ''a.bin'') [] 2097153) (str ''a.bin'')
        (limited_env (Some (str ''2097152'')) None) =
       Inl (OcrError 413 (str ''FILE_TOO_LARGE'')
              (msg_too_large_prefix @ str ''2'' @ msg_too_large_suffix) None)
   \<and> raises (validateFile example_platform (zero_file (str ''a.bin'') [] 2097153) (str ''a.bin'')
        (limited_env (Some (str ''2097152'')) None)) 413 (str ''FILE_TOO_LARGE'')
   \<and> getMaxFileSize example_platform (Some (str ''abc'')) = 10485760
   \<and> getMaxFileSize example_platform (Some (str ''0'')) = 10485760
   \<and> getMaxFileSize example_platform (Some (str ''Infinity'')) = 10485760
   \<and> getMaxFileSize example_platform (Some (str ''-Infinity'')) = 10485760"
proof -
  let ?f = "zero_file (str ''a.bin'') [] 2097153"
  let ?e = "limited_env (Some (str ''2097152'')) None"
  have ne: "str ''2097152'' \<noteq> []"
    by (simp add: str_Cons)
  have r: "\<lfloor>(5 :: rat) / 2\<rfloor> = 2"
    by (simp add: floor_eq_iff)
  have sz: "size_of ?f = 2097153" and lim: "MAX_FILE_SIZE ?e = Some (str ''2097152'')"
    by (simp_all add: size_of_def zero_file_def limited_env_def)
  note big = file_too_large
    [of example_platform ?f "str ''a.bin''" ?e 413 "[]" "[]" "str ''a.bin''" None
      "str ''2097152''" 2097152]
  note nan = file_too_large
    [of example_platform ?f "str ''a.bin''" ?e 413 "[]" "[]" "str ''a.bin''" None "str ''abc''" 0]
  note zero = file_too_large
    [of example_platform ?f "str ''a.bin''" ?e 413 "[]" "[]" "str ''a.bin''" None "str ''0''" 0]
  note pinf = file_too_large
    [of example_platform ?f "str ''a.bin''" ?e 413 "[]" "[]" "str ''a.bin''" None
      "str ''Infinity''" 0]
  note ninf = file_too_large
    [of example_platform ?f "str ''a.bin''" ?e 413 "[]" "[]" "str ''a.bin''" None
      "str ''-Infinity''" 0]
  have m: "getMaxFileSize example_platform (Some (str ''2097152'')) = 2097152"
    using big ne by (simp add: example_numbers)
  show ?thesis
    using big nan zero pinf ninf m by (simp add: example_numbers sz lim r)
qed

subsection \<open>The target text\<close>

lemma trim_empty_iff: "trim s = [] \<longleftrightarrow> list_all is_ws s"
proof -
  have "dropWhile is_ws s = [] \<longleftrightarrow> list_all is_ws s"
    by (simp add: dropWhile_eq_Nil_conv list_all_iff)
  moreover have "dropWhile is_ws (rev (dropWhile is_ws s)) = [] \<longleftrightarrow> dropWhile is_ws s = []"
  proof
    assume a: "dropWhile is_ws (rev (dropWhile is_ws s)) = []"
    show "dropWhile is_ws s = []"
    proof (rule ccontr)
      assume n: "dropWhile is_ws s \<noteq> []"
      then have "\<not> is_ws (hd (dropWhile is_ws s))"
        by (rule hd_dropWhile)
      moreover have "hd (dropWhile is_ws s) \<in> set (rev (dropWhile is_ws s))"
        using n by simp
      ultimately show False
        using a by (auto simp: dropWhile_eq_Nil_conv)
    qed
  qed (auto dest: set_dropWhileD)
  ultimately show ?thesis
    by (simp add: trim_def)
qed

lemma normalizeString_absent: "normalizeString v = None \<longleftrightarrow> absent v"
  by (cases v) (simp_all add: absent_def trim_empty_iff)

lemma safeParse_fields:
  assumes "JsonRequestSchema_safeParse raw = Inr p"
  shows "parse_taskType (get_prop raw (str ''taskType'')) = Inr (req_taskType p)"
    and "parse_image (get_prop raw (str ''image'')) = Inr (req_image p)"
    and "parse_optional_string (str ''filename'') (get_prop raw (str ''filename'')) =
          Inr (req_filename p)"
    and "parse_optional_string (str ''prompt'') (get_prop raw (str ''prompt'')) = Inr (prompt p)"
    and "parse_optional_string (str ''text'') (get_prop raw (str ''text'')) = Inr (req_text p)"
proof -
  obtain kvs where raw: "raw = JObj kvs"
    using assms by (cases raw) (simp_all add: JsonRequestSchema_safeParse_def)
  let ?t = "parse_taskType (get_prop raw (str ''taskType''))"
  let ?i = "parse_image (get_prop raw (str ''image''))"
  let ?f = "parse_optional_string (str ''filename'') (get_prop raw (str ''filename''))"
  let ?p = "parse_optional_string (str ''prompt'') (get_prop raw (str ''prompt''))"
  let ?x = "parse_optional_string (str ''text'') (get_prop raw (str ''text''))"
  have "(case (?t, ?i, ?f, ?p, ?x) of
           (Inr t', Inr i', Inr f', Inr p', Inr x') \<Rightarrow>
             Inr \<lparr>req_taskType = t', req_image = i', req_filename = f', prompt = p',
                  req_text = x'\<rparr>
         | _ \<Rightarrow> Inl (issues_of ?t @ issues_of ?i @ issues_of ?f @ issues_of ?p @ issues_of ?x))
        = Inr p"
    using assms unfolding raw JsonRequestSchema_safeParse_def Let_def by simp
  then show "?t = Inr (req_taskType p)" "?i = Inr (req_image p)" "?f = Inr (req_filename p)"
    "?p = Inr (prompt p)" "?x = Inr (req_text p)"
    by (auto split: sum.splits)
qed

lemma parse_optional_string_value:
  "parse_optional_string key v = Inr x \<Longrightarrow> of_optional x = v"
  by (cases v) (auto simp: parse_optional_string_def of_optional_def)

lemma safeParse_text:
  assumes "JsonRequestSchema_safeParse raw = Inr payload"
  shows "of_optional (req_text payload) = get_prop raw (str ''text'')"
  using safeParse_fields(5) [OF assms] by (rule parse_optional_string_value)

lemma parseMultipart_target:
  "parseMultipart c forced = Inr p \<Longrightarrow>
   \<exists>form. parseBody c = Some form \<and> targetText p = normalizeString (first (form (str ''text'')))"
  by (auto simp: parseMultipart_def Let_def split: option.splits jsval.splits sum.splits)

lemma parseJson_target:
  "parseJson pf c forced = Inr p \<Longrightarrow>
   \<exists>raw. json c = Some raw \<and> targetText p = normalizeString (get_prop raw (str ''text''))"
  by (auto simp: parseJson_def Let_def safeParse_text
      split: option.splits sum.splits if_splits)

lemma parseInput_target:
  assumes "parseInput pf c forced = Inr p"
  shows "targetText p = normalizeString (text_field c)"
proof (cases "multipart_path c")
  case True
  then show ?thesis
    using assms parseMultipart_target [of c forced p]
    by (auto simp: parseInput_multipart text_field_def)
next
  case False
  then have "json_path c"
    using assms by (auto simp: parseInput_def json_path_def multipart_path_def split: if_splits)
  then show ?thesis
    using assms False parseJson_target [of pf c forced p]
    by (auto simp: parseInput_json text_field_def)
qed

lemma buildPrompt_locate_without_target:
  "buildPrompt (TASK_CONFIGS text_localization) custom None =
     Inl (OcrError 400 (str ''MISSING_TARGET_TEXT'') msg_missing_target_text None)"
  by (simp add: buildPrompt_def truthy_str_def)

text \<open>
  C6, as the claim states it, fails: a form sent to the text-localization endpoint with
  neither an image nor a text is answered with INVALID_FILE, not with
  MISSING_TARGET_TEXT.
\<close>

theorem missing_target_text_counterexample:
  "absent (text_field (multipart_request []))
   \<and> is_error (OcrLocateRoute example_platform (multipart_request [])) 400 (str ''INVALID_FILE'')
   \<and> \<not> is_error (OcrLocateRoute example_platform (multipart_request [])) 400
          (str ''MISSING_TARGET_TEXT'')"
proof -
  have "parseMultipart (multipart_request []) (Some text_localization) =
      Inl (OcrError 400 (str ''INVALID_FILE'') msg_invalid_file None)"
    by (simp add: parseMultipart_def multipart_request_def form_of_def)
  then have "parseInput example_platform (multipart_request []) (Some text_localization) =
      Inl (OcrError 400 (str ''INVALID_FILE'') msg_invalid_file None)"
    by (simp add: parseInput_multipart example_paths)
  then have "OcrLocateRoute example_platform (multipart_request []) =
      Inr \<lparr>status = 400, body = Failure (str ''INVALID_FILE'') msg_invalid_file None\<rparr>"
    by (simp add: OcrLocateRoute_def createAliasRoute_def handleOcrRequest_parse_error
        handleError_def Response_json_def)
  moreover have "absent (text_field (multipart_request []))"
    by (simp add: text_field_def example_paths absent_def multipart_request_def form_of_def)
  ultimately show ?thesis
    by (simp add: is_error_def str_Cons)
qed

text \<open>
  C6, amended: every request whose input parses to the text-localization task, forced
  by the endpoint or declared in the body, and whose text field is absent, empty or
  white space only, is answered with MISSING_TARGET_TEXT and status 400, on the
  multipart and on the JSON path.
\<close>

theorem missing_target_text:
  assumes "parseInput pf c forced = Inr p"
    and "taskType p = text_localization"
    and "absent (text_field c)"
  shows "handleOcrRequest pf c forced =
     Inr \<lparr>status = 400,
      body = Failure (str ''MISSING_TARGET_TEXT'') msg_missing_target_text None\<rparr>"
proof -
  have "targetText p = None"
    using assms(1,3) by (simp add: parseInput_target normalizeString_absent)
  then have "processRequest pf c forced =
      Inl (OcrError 400 (str ''MISSING_TARGET_TEXT'') msg_missing_target_text None)"
    using assms(1,2)
    by (simp add: processRequest_def buildPrompt_locate_without_target del: TASK_CONFIGS.simps)
  then show ?thesis
    by (simp add: handleOcrRequest_def handleError_def Response_json_def)
qed

lemma TaskTypeSchema_task_name: "TaskTypeSchema (task_name t) = Some t" "task_name t \<noteq> []"
  by (cases t; simp add: TaskTypeSchema_def str_Cons)+

lemma resolveTaskType_declared:
  "resolveTaskType None (Some (task_name t)) = Inr t"
  using TaskTypeSchema_task_name [of t]
  by (simp add: resolveTaskType_def truthy_str_def or_else_def del: task_name.simps)

lemma example_decode: "base64ToUint8Array (str ''iVBORw=='') = Inr [137, 80, 78, 71]"
  by (simp add: base64ToUint8Array_def atob_def strip_padding_def b64_value_def is_ascii_ws_def
      string_defs)

lemma example_blank_form:
  "parseInput example_platform
     (multipart_request [(str ''image'', JFile example_file), (str ''text'', JStr (str ''  ''))])
     (Some text_localization) =
   Inr \<lparr>input_file = example_file, filename = str ''scan.png'', taskType = text_localization,
        customPrompt = None, targetText = None\<rparr>"
  by (simp add: parseInput_def multipart_request_def parseMultipart_def form_of_def
      resolveTaskType_def example_file_def string_defs)

lemma example_declared_json:
  "parseInput example_platform
     (json_request (Some (JObj [(str ''image'', JStr (str ''iVBORw=='')),
                                (str ''taskType'', JStr (str ''text_localization''))])))
     None =
   Inr \<lparr>input_file = \<lparr>file_name = str ''upload'', file_type = str ''application/octet-stream'',
                       bytes = [137, 80, 78, 71]\<rparr>,
        filename = str ''upload'', taskType = text_localization,
        customPrompt = None, targetText = None\<rparr>"
proof -
  have "JsonRequestSchema_safeParse
      (JObj [(str ''image'', JStr (str ''iVBORw=='')),
             (str ''taskType'', JStr (str ''text_localization''))]) =
      Inr \<lparr>req_taskType = Some text_localization, req_image = str ''iVBORw=='',
           req_filename = None, prompt = None, req_text = None\<rparr>"
    by (simp add: JsonRequestSchema_safeParse_def parse_taskType_def parse_image_def
        parse_optional_string_def TaskTypeSchema_def str_Cons)
  moreover have "inferMimeType example_platform (str ''upload'') = None"
    by (simp add: inferMimeType_def getExtension_def str_Cons)
  moreover have "str ''iVBORw=='' \<noteq> []"
    by (simp add: str_Cons)
  ultimately have "parseJson example_platform
     (json_request (Some (JObj [(str ''image'', JStr (str ''iVBORw=='')),
                                (str ''taskType'', JStr (str ''text_localization''))])))
     None =
   Inr \<lparr>input_file = \<lparr>file_name = str ''upload'', file_type = str ''application/octet-stream'',
                       bytes = [137, 80, 78, 71]\<rparr>,
        filename = str ''upload'', taskType = text_localization,
        customPrompt = None, targetText = None\<rparr>"
    by (simp add: parseJson_def json_request_def example_decode or_else_def
        resolveTaskType_declared of_optional_def Let_def del: task_name.simps)
  then show ?thesis
    by (simp add: parseInput_json example_paths)
qed

theorem missing_target_text_witness:
  "absent (text_field
     (multipart_request [(str ''image'', JFile example_file), (str ''text'', JStr (str ''  ''))]))
   \<and> handleOcrRequest example_platform
        (multipart_request [(str ''image'', JFile example_file), (str ''text'', JStr (str ''  ''))])
        (Some text_localization) =
       Inr \<lparr>status = 400,
        body = Failure (str ''MISSING_TARGET_TEXT'') msg_missing_target_text None\<rparr>
   \<and> absent (text_field
        (json_request (Some (JObj [(str ''image'', JStr (str ''iVBORw=='')),
                                   (str ''taskType'', JStr (str ''text_localization''))]))))
   \<and> handleOcrRequest example_platform
        (json_request (Some (JObj [(str ''image'', JStr (str ''iVBORw=='')),
                                   (str ''taskType'', JStr (str ''text_localization''))])))
        None =
       Inr \<lparr>status = 400,
        body = Failure (str ''MISSING_TARGET_TEXT'') msg_missing_target_text None\<rparr>"
proof -
  let ?m = "multipart_request [(str ''image'', JFile example_file), (str ''text'', JStr (str ''  ''))]"
  let ?j = "json_request (Some (JObj [(str ''image'', JStr (str ''iVBORw=='')),
                                      (str ''taskType'', JStr (str ''text_localization''))]))"
  have "text_field ?m = JStr (str ''  '')"
    by (simp add: text_field_def example_paths) (simp add: multipart_request_def form_of_def str_Cons)
  then have am: "absent (text_field ?m)"
    by (simp add: absent_def is_ws_def str_Cons)
  have "\<not> multipart_path ?j"
    using example_paths(1) [of "json ?j"] by (simp add: json_path_def json_request_def)
  then have "text_field ?j = JUndefined"
    by (simp add: text_field_def) (simp add: json_request_def str_Cons)
  then have aj: "absent (text_field ?j)"
    by (simp add: absent_def)
  show ?thesis
    using am aj
      missing_target_text [OF example_blank_form _ am]
      missing_target_text [OF example_declared_json _ aj]
    by simp
qed

subsection \<open>The allow-list\<close>

















end
